theory Spec2Isabelle
  imports Main "HOL-Library.Sublist"
begin

section \<open>Python values, exceptions and string operations\<close>

text \<open>
  The program is dynamically typed: responses, model replies, intents and evaluations are
  dictionaries, lists, strings, booleans, integers or \<open>None\<close>. A dictionary is an
  association list in insertion order whose lookup takes the first binding of a key.
  Numbers are integers: the code computes with no number it reads. A character is one
  code point below 256.
\<close>

datatype pyval =
    JNull
  | JBool bool
  | JInt int
  | JStr string
  | JList "pyval list"
  | JObj "(string \<times> pyval) list"

text \<open>
  Exceptions are values. \<open>OtherError\<close> stands for every exception class that is none of
  the named ones (a connection failure of the AWS client, a decoding error, ...). The
  string is the text \<open>str(e)\<close> of the exception.
\<close>

datatype exn =
    ClientError string
  | JSONDecodeError string
  | ValueError string
  | TypeError string
  | KeyError string
  | AttributeError string
  | IndexError string
  | OtherError string

fun exn_str :: "exn \<Rightarrow> string" where
  "exn_str (ClientError m) = m"
| "exn_str (JSONDecodeError m) = m"
| "exn_str (ValueError m) = m"
| "exn_str (TypeError m) = m"
| "exn_str (KeyError m) = m"
| "exn_str (AttributeError m) = m"
| "exn_str (IndexError m) = m"
| "exn_str (OtherError m) = m"

text \<open>Truth value of an object in an \<open>if\<close>, \<open>not\<close> or \<open>and\<close>.\<close>

fun truthy :: "pyval \<Rightarrow> bool" where
  "truthy JNull = False"
| "truthy (JBool b) = b"
| "truthy (JInt i) = (i \<noteq> 0)"
| "truthy (JStr s) = (s \<noteq> [])"
| "truthy (JList xs) = (xs \<noteq> [])"
| "truthy (JObj kvs) = (kvs \<noteq> [])"

text \<open>An optional string argument (\<open>None\<close> or a \<open>str\<close>) as a value.\<close>

fun opt_str :: "string option \<Rightarrow> pyval" where
  "opt_str None = JNull"
| "opt_str (Some s) = JStr s"

fun type_name :: "pyval \<Rightarrow> string" where
  "type_name JNull = ''NoneType''"
| "type_name (JBool b) = ''bool''"
| "type_name (JInt i) = ''int''"
| "type_name (JStr s) = ''str''"
| "type_name (JList xs) = ''list''"
| "type_name (JObj kvs) = ''dict''"

definition no_attribute :: "pyval \<Rightarrow> string \<Rightarrow> exn" where
  "no_attribute v a =
     AttributeError ([CHR 0x27] @ type_name v @ [CHR 0x27] @ '' object has no attribute ''
                     @ [CHR 0x27] @ a @ [CHR 0x27])"

text \<open>\<open>d.get(k, default)\<close>: only a dictionary has the method.\<close>

definition py_get :: "pyval \<Rightarrow> string \<Rightarrow> pyval \<Rightarrow> exn + pyval" where
  "py_get d k dflt =
     (case d of
        JObj kvs \<Rightarrow> (case map_of kvs k of Some v \<Rightarrow> Inr v | None \<Rightarrow> Inr dflt)
      | _ \<Rightarrow> Inl (no_attribute d ''get''))"

text \<open>\<open>d[k]\<close> with a string key.\<close>

definition py_getitem :: "pyval \<Rightarrow> string \<Rightarrow> exn + pyval" where
  "py_getitem d k =
     (case d of
        JObj kvs \<Rightarrow> (case map_of kvs k of Some v \<Rightarrow> Inr v
                      | None \<Rightarrow> Inl (KeyError ([CHR 0x27] @ k @ [CHR 0x27])))
      | JList xs \<Rightarrow> Inl (TypeError ''list indices must be integers or slices, not str'')
      | JStr s \<Rightarrow> Inl (TypeError ''string indices must be integers'')
      | _ \<Rightarrow> Inl (TypeError ([CHR 0x27] @ type_name d @ [CHR 0x27]
                                @ '' object is not subscriptable'')))"

text \<open>\<open>x[0]\<close>.\<close>

definition py_index0 :: "pyval \<Rightarrow> exn + pyval" where
  "py_index0 x =
     (case x of
        JList xs \<Rightarrow> (case xs of [] \<Rightarrow> Inl (IndexError ''list index out of range'')
                      | v # _ \<Rightarrow> Inr v)
      | JStr s \<Rightarrow> (case s of [] \<Rightarrow> Inl (IndexError ''string index out of range'')
                    | c # _ \<Rightarrow> Inr (JStr [c]))
      | JObj kvs \<Rightarrow> Inl (KeyError ''0'')
      | _ \<Rightarrow> Inl (TypeError ([CHR 0x27] @ type_name x @ [CHR 0x27]
                                @ '' object is not subscriptable'')))"

text \<open>\<open>d[k] = v\<close> on a dictionary: an existing key keeps its position.\<close>

fun py_setitem :: "(string \<times> pyval) list \<Rightarrow> string \<Rightarrow> pyval \<Rightarrow> (string \<times> pyval) list" where
  "py_setitem [] k v = [(k, v)]"
| "py_setitem ((k', v') # kvs) k v =
     (if k' = k then (k, v) # kvs else (k', v') # py_setitem kvs k v)"

subsection \<open>Strings\<close>

text \<open>\<open>str.lower()\<close> on the code points below 256.\<close>

definition lower_char :: "char \<Rightarrow> char" where
  "lower_char c =
     (let n = (of_char c :: nat)
      in if (65 \<le> n \<and> n \<le> 90) \<or> (192 \<le> n \<and> n \<le> 222 \<and> n \<noteq> 215)
         then char_of (n + 32) else c)"

definition lower :: "string \<Rightarrow> string" where
  "lower s = map lower_char s"

text \<open>\<open>sub in s\<close> for strings: \<open>sub\<close> occurs in \<open>s\<close> as a contiguous block.\<close>

fun py_in :: "string \<Rightarrow> string \<Rightarrow> bool" where
  "py_in sub [] = (sub = [])"
| "py_in sub (c # cs) = (prefix sub (c # cs) \<or> py_in sub cs)"

text \<open>\<open>s.find(sub)\<close> and \<open>s.rfind(sub)\<close>: first and last position, or -1.\<close>

fun py_find :: "string \<Rightarrow> string \<Rightarrow> int" where
  "py_find [] sub = (if sub = [] then 0 else - 1)"
| "py_find (c # cs) sub =
     (if prefix sub (c # cs) then 0
      else (let r = py_find cs sub in if r < 0 then - 1 else r + 1))"

fun py_rfind :: "string \<Rightarrow> string \<Rightarrow> int" where
  "py_rfind [] sub = (if sub = [] then 0 else - 1)"
| "py_rfind (c # cs) sub =
     (let r = py_rfind cs sub
      in if 0 \<le> r then r + 1 else if prefix sub (c # cs) then 0 else - 1)"

text \<open>\<open>s[a:b]\<close> for \<open>0 \<le> a\<close> and \<open>0 \<le> b\<close>, the only slices the code takes.\<close>

definition py_slice :: "string \<Rightarrow> int \<Rightarrow> int \<Rightarrow> string" where
  "py_slice s a b = drop (nat a) (take (nat b) s)"

text \<open>\<open>s.split()\<close>: the maximal runs of non-whitespace characters.\<close>

definition is_space :: "char \<Rightarrow> bool" where
  "is_space c =
     (let n = (of_char c :: nat)
      in (9 \<le> n \<and> n \<le> 13) \<or> (28 \<le> n \<and> n \<le> 32) \<or> n = 133 \<or> n = 160)"

fun py_split_aux :: "string \<Rightarrow> string \<Rightarrow> string list" where
  "py_split_aux cur [] = (if cur = [] then [] else [cur])"
| "py_split_aux cur (c # cs) =
     (if is_space c
      then (if cur = [] then py_split_aux [] cs else cur # py_split_aux [] cs)
      else py_split_aux (cur @ [c]) cs)"

definition py_split :: "string \<Rightarrow> string list" where
  "py_split s = py_split_aux [] s"

text \<open>\<open>item in container\<close> for a string \<open>item\<close>.\<close>

definition py_contains :: "pyval \<Rightarrow> string \<Rightarrow> exn + bool" where
  "py_contains container item =
     (case container of
        JStr s \<Rightarrow> Inr (py_in item s)
      | JList xs \<Rightarrow> Inr (JStr item \<in> set xs)
      | JObj kvs \<Rightarrow> Inr (item \<in> set (map fst kvs))
      | _ \<Rightarrow> Inl (TypeError (''argument of type '' @ [CHR 0x27] @ type_name container
                                @ [CHR 0x27] @ '' is not iterable'')))"

text \<open>The elements a \<open>for\<close> loop over a value visits.\<close>

definition py_iter :: "pyval \<Rightarrow> exn + pyval list" where
  "py_iter v =
     (case v of
        JList xs \<Rightarrow> Inr xs
      | JStr s \<Rightarrow> Inr (map (\<lambda>c. JStr [c]) s)
      | JObj kvs \<Rightarrow> Inr (map (\<lambda>kv. JStr (fst kv)) kvs)
      | _ \<Rightarrow> Inl (TypeError ([CHR 0x27] @ type_name v @ [CHR 0x27]
                                @ '' object is not iterable'')))"

section \<open>Collaborators, configuration and the trace of external calls\<close>

text \<open>
  Every call of an external service is recorded, in order, in a trace. A collaborator's
  answer may depend on the trace so far (the model is not deterministic, a store changes),
  so each collaborator takes the trace before the call as its first argument.
\<close>

record agent_request =
  inputText :: string
  agentId :: string
  agentAliasId :: string
  sessionId :: "string option"

text \<open>
  The reply of the agent runtime: the event stream \<open>completion\<close> and the optional
  \<open>sessionId\<close>. An event of the stream is \<open>Inr (Some text)\<close> when it has a chunk with
  bytes (decoded), \<open>Inr None\<close> when it has none, and \<open>Inl e\<close> when reading or decoding
  it raises \<open>e\<close>.
\<close>

record agent_response =
  completion :: "(exn + string option) list"
  response_sessionId :: "string option"

record update_request =
  Key :: pyval
  UpdateExpression :: string
  ExpressionAttributeNames :: "(string \<times> string) list"
  ExpressionAttributeValues :: "(string \<times> pyval) list"
  ReturnValues :: string

datatype event =
    InvokeModel string string
  | SnsPublish string string string
  | InvokeAgent agent_request
  | ApplyGuardrail string string string
  | ListObjects "string option" string
  | GetObject "string option" string
  | PutItem pyval
  | GetItem pyval
  | UpdateItem update_request

text \<open>
  \<open>bedrock_invoke_model\<close> stands for \<open>invoke_model\<close> followed by
  \<open>json.loads(response.get('body').read())\<close>: it yields the parsed response body or
  the exception either step raises. \<open>bedrock_apply_guardrail\<close> likewise yields the
  parsed body of the guardrail response. \<open>s3_list_objects_v2\<close> yields the keys under
  \<open>Contents\<close> in listing order, \<open>None\<close> when the response has no \<open>Contents\<close>;
  \<open>s3_get_object\<close> yields the decoded body. \<open>json_loads\<close> is \<open>json.loads\<close> on a
  string (\<open>Inl m\<close>: it raises JSONDecodeError with text \<open>m\<close>), \<open>json_dumps\<close> is
  \<open>json.dumps\<close> with the given indent, \<open>py_repr\<close> is \<open>str\<close> of a value that is not
  a string. The outcome of \<open>sns.publish\<close> is not a field: the code catches whatever it
  raises and only prints it. Console output is not modelled.
\<close>

record world =
  json_loads :: "string \<Rightarrow> string + pyval"
  json_dumps :: "nat option \<Rightarrow> pyval \<Rightarrow> string"
  py_repr :: "pyval \<Rightarrow> string"
  utcnow_isoformat :: "event list \<Rightarrow> string"
  uuid4_str :: "event list \<Rightarrow> string"
  bedrock_invoke_model :: "event list \<Rightarrow> string \<Rightarrow> string \<Rightarrow> exn + pyval"
  agent_runtime_invoke_agent :: "event list \<Rightarrow> agent_request \<Rightarrow> exn + agent_response"
  bedrock_apply_guardrail :: "event list \<Rightarrow> string \<Rightarrow> string \<Rightarrow> string \<Rightarrow> exn + pyval"
  s3_list_objects_v2 :: "event list \<Rightarrow> string option \<Rightarrow> string \<Rightarrow> exn + string list option"
  s3_get_object :: "event list \<Rightarrow> string option \<Rightarrow> string \<Rightarrow> exn + string"
  table_put_item :: "event list \<Rightarrow> pyval \<Rightarrow> exn option"
  table_get_item :: "event list \<Rightarrow> pyval \<Rightarrow> exn + pyval"
  table_update_item :: "event list \<Rightarrow> update_request \<Rightarrow> exn option"

text \<open>The attributes the constructors store.\<close>

record config =
  agent_id :: "string option"
  agent_alias_id :: "string option"
  model_id :: string
  s3_bucket :: "string option"
  s3_prefix :: string
  sns_topic_arn :: "string option"
  guardrail_id :: "string option"
  guardrail_version :: "string option"

text \<open>A value inside an f-string.\<close>

definition py_format :: "world \<Rightarrow> pyval \<Rightarrow> string" where
  "py_format w v = (case v of JStr s \<Rightarrow> s | _ \<Rightarrow> py_repr w v)"

text \<open>\<open>response_body.get('content', [{}])[0].get('text', default)\<close>.\<close>

definition model_text :: "pyval \<Rightarrow> string \<Rightarrow> exn + pyval" where
  "model_text response_body dflt =
     (case py_get response_body ''content'' (JList [JObj []]) of
        Inl e \<Rightarrow> Inl e
      | Inr blocks \<Rightarrow>
          (case py_index0 blocks of
             Inl e \<Rightarrow> Inl e
           | Inr block \<Rightarrow> py_get block ''text'' (JStr dflt)))"

section \<open>Emergency agent (emergency\_agent.py)\<close>

definition emergency_prompt :: "string \<Rightarrow> string" where
  \<open>emergency_prompt message =
     ''\<newline>''
       @ ''        You are an emergency evaluation system. Analyze the following situation and determine:\<newline>''
       @ ''        1. If it's an emergency\<newline>''
       @ ''        2. The severity level (low, medium, high, critical)\<newline>''
       @ ''        3. What immediate actions should be taken\<newline>''
       @ ''        \<newline>''
       @ ''        Return a JSON object with the following structure:\<newline>''
       @ ''        {\<newline>''
       @ ''            "is_emergency": true/false,\<newline>''
       @ ''            "severity": "low|medium|high|critical",\<newline>''
       @ ''            "recommended_actions": ["action1", "action2", ...],\<newline>''
       @ ''            "reasoning": "brief explanation of your assessment"\<newline>''
       @ ''        }\<newline>''
       @ ''        \<newline>''
       @ ''        Situation: ''
       @ message
       @ ''\<newline>''
       @ ''        \<newline>''
       @ ''        JSON response:\<newline>''
       @ ''        ''\<close>

text \<open>\<open>_escalate_emergency\<close>: returns nothing; its effect is the trace.\<close>

definition escalate_emergency ::
  "world \<Rightarrow> config \<Rightarrow> event list \<Rightarrow> string \<Rightarrow> pyval \<Rightarrow> event list" where
  "escalate_emergency w cfg log message evaluation =
     (case sns_topic_arn cfg of
        None \<Rightarrow> log
      | Some topic_arn \<Rightarrow>
      if topic_arn = [] then log
      else
        (case py_get evaluation ''severity'' JNull of
           Inl e \<Rightarrow> log
         | Inr sev \<Rightarrow>
        (case py_get evaluation ''recommended_actions'' (JList []) of
           Inl e \<Rightarrow> log
         | Inr actions \<Rightarrow>
        (case py_get evaluation ''reasoning'' (JStr []) of
           Inl e \<Rightarrow> log
         | Inr reasoning \<Rightarrow>
        (case py_get evaluation ''severity'' (JStr ''high'') of
           Inl e \<Rightarrow> log
         | Inr sev_subject \<Rightarrow>
             (let notification = JObj
                    [(''timestamp'', JStr (utcnow_isoformat w log)),
                     (''original_message'', JStr message),
                     (''severity'', sev),
                     (''recommended_actions'', actions),
                     (''reasoning'', reasoning)]
              in log @ [SnsPublish topic_arn
                          (''EMERGENCY ALERT - '' @ py_format w sev_subject @ '' severity'')
                          (json_dumps w (Some 2) notification)]))))))"

definition evaluation_failed :: pyval where
  "evaluation_failed = JObj
     [(''is_emergency'', JBool False),
      (''severity'', JStr ''unknown''),
      (''recommended_actions'', JList []),
      (''reasoning'', JStr ''Failed to evaluate the situation'')]"

definition evaluation_error :: "exn \<Rightarrow> pyval" where
  "evaluation_error e = JObj
     [(''is_emergency'', JBool False),
      (''severity'', JStr ''unknown''),
      (''recommended_actions'', JList []),
      (''reasoning'', JStr (''Error: '' @ exn_str e))]"

text \<open>The body of the \<open>try\<close> block of \<open>evaluate_emergency\<close>.\<close>

definition evaluate_emergency_try ::
  "world \<Rightarrow> config \<Rightarrow> event list \<Rightarrow> string \<Rightarrow> (exn + pyval) \<times> event list" where
  "evaluate_emergency_try w cfg log message =
     (let prompt = emergency_prompt message;
          log1 = log @ [InvokeModel (model_id cfg) prompt]
      in case bedrock_invoke_model w log (model_id cfg) prompt of
           Inl e \<Rightarrow> (Inl e, log1)
         | Inr response_body \<Rightarrow>
        (case model_text response_body ''{}'' of
           Inl e \<Rightarrow> (Inl e, log1)
         | Inr content \<Rightarrow>
        (case content of
           JStr c \<Rightarrow>
             (let start_idx = py_find c ''{'';
                  end_idx = py_rfind c ''}'' + 1
              in if 0 \<le> start_idx \<and> start_idx < end_idx then
                   (case json_loads w (py_slice c start_idx end_idx) of
                      Inl m \<Rightarrow> (Inl (JSONDecodeError m), log1)
                    | Inr evaluation \<Rightarrow>
                   (case py_get evaluation ''is_emergency'' (JBool False) of
                      Inl e \<Rightarrow> (Inl e, log1)
                    | Inr is_em \<Rightarrow>
                        if \<not> truthy is_em then (Inr evaluation, log1)
                        else
                          (case py_get evaluation ''severity'' JNull of
                             Inl e \<Rightarrow> (Inl e, log1)
                           | Inr sev \<Rightarrow>
                               if sev \<in> set [JStr ''high'', JStr ''critical'']
                               then (Inr evaluation,
                                     escalate_emergency w cfg log1 message evaluation)
                               else (Inr evaluation, log1))))
                 else (Inr evaluation_failed, log1))
         | _ \<Rightarrow> (Inl (no_attribute content ''find''), log1))))"

text \<open>\<open>evaluate_emergency\<close>: \<open>except Exception\<close> turns every exception into a value.\<close>

definition evaluate_emergency ::
  "world \<Rightarrow> config \<Rightarrow> event list \<Rightarrow> string \<Rightarrow> pyval \<times> event list" where
  "evaluate_emergency w cfg log message =
     (case evaluate_emergency_try w cfg log message of
        (Inl e, log') \<Rightarrow> (evaluation_error e, log')
      | (Inr evaluation, log') \<Rightarrow> (evaluation, log'))"

text \<open>
  \<open>handle_emergency_request\<close>. Its look-ups are all on the one evaluation, so either
  the first of them raises or none does; they are written before the branches.
\<close>

definition handle_emergency_request ::
  "world \<Rightarrow> config \<Rightarrow> event list \<Rightarrow> string \<Rightarrow> (exn + pyval) \<times> event list" where
  "handle_emergency_request w cfg log message =
     (case evaluate_emergency w cfg log message of
        (evaluation, log1) \<Rightarrow>
        (case py_get evaluation ''is_emergency'' (JBool False) of
           Inl e \<Rightarrow> (Inl e, log1)
         | Inr is_em \<Rightarrow>
        (case py_get evaluation ''severity'' JNull of
           Inl e \<Rightarrow> (Inl e, log1)
         | Inr sev \<Rightarrow>
        (case py_get evaluation ''recommended_actions'' (JList []) of
           Inl e \<Rightarrow> (Inl e, log1)
         | Inr actions \<Rightarrow>
        (case py_get evaluation ''reasoning'' (JStr []) of
           Inl e \<Rightarrow> (Inl e, log1)
         | Inr reasoning \<Rightarrow>
        (case py_get evaluation ''severity'' (JStr ''low'') of
           Inl e \<Rightarrow> (Inl e, log1)
         | Inr sev_low \<Rightarrow>
             if truthy is_em then
               (if sev \<in> set [JStr ''high'', JStr ''critical'']
                then (Inr (JObj
                       [(''status'', JStr ''emergency_escalated''),
                        (''message'', JStr ''This situation has been identified as a serious emergency and has been escalated to the appropriate team. Please follow these immediate actions:''),
                        (''actions'', actions),
                        (''severity'', sev)]), log1)
                else (Inr (JObj
                       [(''status'', JStr ''emergency_identified''),
                        (''message'', JStr ''This situation has been identified as a potential emergency. Please consider these recommended actions:''),
                        (''actions'', actions),
                        (''severity'', sev)]), log1))
             else (Inr (JObj
                    [(''status'', JStr ''not_emergency''),
                     (''message'', JStr ''This situation has not been identified as an emergency.''),
                     (''reasoning'', reasoning),
                     (''severity'', sev_low)]), log1)))))))"

text \<open>
  Sequencing inside a statement block: an exception of a sub-expression leaves the
  block with the trace reached so far.
\<close>

definition bind_exn ::
  "exn + 'a \<Rightarrow> event list \<Rightarrow> ('a \<Rightarrow> (exn + 'b) \<times> event list) \<Rightarrow> (exn + 'b) \<times> event list" where
  "bind_exn r log f = (case r of Inl e \<Rightarrow> (Inl e, log) | Inr v \<Rightarrow> f v)"

section \<open>Supervisor client (supervisor\_integration.py)\<close>

text \<open>The loop over the completion stream, inside the \<open>try\<close> block.\<close>

fun collect_chunks :: "world \<Rightarrow> (exn + string option) list \<Rightarrow> pyval list \<Rightarrow> exn + pyval list" where
  "collect_chunks w [] messages = Inr messages"
| "collect_chunks w (ev # evs) messages =
     (case ev of
        Inl e \<Rightarrow> Inl e
      | Inr None \<Rightarrow> collect_chunks w evs messages
      | Inr (Some bytes) \<Rightarrow>
          (case json_loads w bytes of
             Inl m \<Rightarrow> Inl (JSONDecodeError m)
           | Inr message_chunk \<Rightarrow> collect_chunks w evs (messages @ [message_chunk])))"

definition ids_missing :: exn where
  "ids_missing = ValueError ''Agent ID and Agent Alias ID must be provided''"

definition invoke_agent ::
  "world \<Rightarrow> config \<Rightarrow> event list \<Rightarrow> string \<Rightarrow> string option \<Rightarrow> (exn + pyval) \<times> event list" where
  "invoke_agent w cfg log message session_id =
     (case agent_id cfg of
        None \<Rightarrow> (Inl ids_missing, log)
      | Some aid \<Rightarrow>
     (case agent_alias_id cfg of
        None \<Rightarrow> (Inl ids_missing, log)
      | Some alias \<Rightarrow>
          if aid = [] \<or> alias = [] then (Inl ids_missing, log)
          else
            (let request = \<lparr>inputText = message, agentId = aid, agentAliasId = alias,
                            sessionId = (if truthy (opt_str session_id) then session_id else None)\<rparr>;
                 log1 = log @ [InvokeAgent request]
             in case agent_runtime_invoke_agent w log request of
                  Inl e \<Rightarrow> (Inr (JObj [(''error'', JStr (exn_str e))]), log1)
                | Inr response \<Rightarrow>
                    (case collect_chunks w (completion response) [] of
                       Inl e \<Rightarrow> (Inr (JObj [(''error'', JStr (exn_str e))]), log1)
                     | Inr messages \<Rightarrow>
                         (Inr (JObj ((''messages'', JList messages) #
                                 (case response_sessionId response of
                                    None \<Rightarrow> []
                                  | Some s \<Rightarrow> [(''sessionId'', JStr s)]))), log1)))))"

section \<open>Ticket operations (ticketing\_agent.py)\<close>

text \<open>
  \<open>create_ticket(self, subject, description, user_id, emergency, priority="medium",
  assigned_to=None)\<close>. An argument is \<open>None\<close> here when the call does not pass it:
  binding the call fails with TypeError when a parameter without default is missing,
  before the body runs. (The text of the TypeError is shortened.)
\<close>

definition missing_required :: "(string \<times> pyval option) list \<Rightarrow> string list" where
  "missing_required params = map fst (filter (\<lambda>p. snd p = None) params)"

definition create_ticket_body ::
  "world \<Rightarrow> event list \<Rightarrow> pyval \<Rightarrow> pyval \<Rightarrow> pyval \<Rightarrow> pyval \<Rightarrow> pyval \<Rightarrow> pyval
     \<Rightarrow> (exn + pyval) \<times> event list" where
  "create_ticket_body w log subject description user_id emergency priority assigned_to =
     (let ticket_id = uuid4_str w log;
          timestamp = utcnow_isoformat w log;
          ticket =
            [(''ticket_id'', JStr ticket_id),
             (''subject'', subject),
             (''user_id'', user_id),
             (''assigned_to'', assigned_to),
             (''description'', description),
             (''status'', JStr ''open''),
             (''priority'', priority),
             (''created_at'', JStr timestamp),
             (''updated_at'', JStr timestamp),
             (''emergency'', emergency)];
          ticket' = (if truthy assigned_to then py_setitem ticket ''assigned_to'' assigned_to
                     else ticket);
          log1 = log @ [PutItem (JObj ticket')]
      in case table_put_item w log (JObj ticket') of
           None \<Rightarrow> (Inr (JObj ticket'), log1)
         | Some (ClientError m) \<Rightarrow> (Inr JNull, log1)
         | Some e \<Rightarrow> (Inl e, log1))"

definition create_ticket ::
  "world \<Rightarrow> event list \<Rightarrow> pyval option \<Rightarrow> pyval option \<Rightarrow> pyval option \<Rightarrow> pyval option
     \<Rightarrow> pyval option \<Rightarrow> pyval option \<Rightarrow> (exn + pyval) \<times> event list" where
  "create_ticket w log subject description user_id emergency priority assigned_to =
     (case (subject, description, user_id, emergency) of
        (Some s, Some d, Some u, Some em) \<Rightarrow>
          create_ticket_body w log s d u em
            (case priority of None \<Rightarrow> JStr ''medium'' | Some p \<Rightarrow> p)
            (case assigned_to of None \<Rightarrow> JNull | Some a \<Rightarrow> a)
      | _ \<Rightarrow>
          (Inl (TypeError (''create_ticket() missing required positional arguments: ''
                  @ concat (map (\<lambda>n. '' '' @ n)
                      (missing_required [(''subject'', subject), (''description'', description),
                                         (''user_id'', user_id), (''emergency'', emergency)])))),
           log))"

definition get_ticket_status ::
  "world \<Rightarrow> event list \<Rightarrow> pyval \<Rightarrow> (exn + pyval) \<times> event list" where
  "get_ticket_status w log ticket_id =
     (let key = JObj [(''ticket_id'', ticket_id)];
          log1 = log @ [GetItem key]
      in case table_get_item w log key of
           Inl (ClientError m) \<Rightarrow> (Inr JNull, log1)
         | Inl e \<Rightarrow> (Inl e, log1)
         | Inr response \<Rightarrow>
             bind_exn (py_contains response ''Item'') log1 (\<lambda>has_item.
               if has_item then (py_getitem response ''Item'', log1)
               else (Inr JNull, log1)))"

text \<open>The request \<open>cancel_ticket\<close> builds before the \<open>try\<close> block.\<close>

definition cancel_request :: "string \<Rightarrow> pyval \<Rightarrow> pyval \<Rightarrow> update_request" where
  "cancel_request timestamp ticket_id reason =
     (let update_expression = ''SET #status = :status, updated_at = :updated'';
          expression_values = [('':status'', JStr ''cancelled''), ('':updated'', JStr timestamp)];
          update_expression' = (if truthy reason
                                then update_expression @ '', cancellation_reason = :reason''
                                else update_expression);
          expression_values' = (if truthy reason
                                then py_setitem expression_values '':reason'' reason
                                else expression_values)
      in \<lparr>Key = JObj [(''ticket_id'', ticket_id)],
          UpdateExpression = update_expression',
          ExpressionAttributeNames = [(''#status'', ''status'')],
          ExpressionAttributeValues = expression_values',
          ReturnValues = ''UPDATED_NEW''\<rparr>)"

definition cancel_ticket ::
  "world \<Rightarrow> event list \<Rightarrow> pyval \<Rightarrow> pyval \<Rightarrow> (exn + bool) \<times> event list" where
  "cancel_ticket w log ticket_id reason =
     (let timestamp = utcnow_isoformat w log;
          request = cancel_request timestamp ticket_id reason;
          log1 = log @ [UpdateItem request]
      in case table_update_item w log request of
           None \<Rightarrow> (Inr True, log1)
         | Some (ClientError m) \<Rightarrow> (Inr False, log1)
         | Some e \<Rightarrow> (Inl e, log1))"

subsection \<open>What an update request does to a stored record\<close>

text \<open>
  The store is external. To say which attributes of a record a request changes, the
  update expressions of the form \<open>SET path = :value, path = :value, ...\<close> are read as
  the store reads them: each clause assigns the value bound to the placeholder to the
  attribute \<open>path\<close>, a path starting with \<open>#\<close> being looked up in the attribute names.
  A record that does not exist is created with its key attributes first.
\<close>

fun split_clauses :: "string \<Rightarrow> string \<Rightarrow> string list" where
  "split_clauses cur [] = [cur]"
| "split_clauses cur [c] = [cur @ [c]]"
| "split_clauses cur (c # d # cs) =
     (if c = CHR '','' \<and> d = CHR '' '' then cur # split_clauses [] cs
      else split_clauses (cur @ [c]) (d # cs))"

fun split_assignment :: "string \<Rightarrow> string \<Rightarrow> (string \<times> string) option" where
  "split_assignment cur (a # b # c # cs) =
     (if a = CHR '' '' \<and> b = CHR ''='' \<and> c = CHR '' '' then Some (cur, cs)
      else split_assignment (cur @ [a]) (b # c # cs))"
| "split_assignment cur cs = None"

definition set_clauses :: "string \<Rightarrow> (string \<times> string) list option" where
  "set_clauses expr =
     (if prefix ''SET '' expr
      then (let cl = map (split_assignment []) (split_clauses [] (drop 4 expr))
            in if None \<in> set cl then None else Some (map the cl))
      else None)"

fun apply_clauses ::
  "(string \<times> string) list \<Rightarrow> (string \<times> pyval) list \<Rightarrow> (string \<times> string) list
     \<Rightarrow> (string \<times> pyval) list \<Rightarrow> (string \<times> pyval) list option" where
  "apply_clauses names vals [] item = Some item"
| "apply_clauses names vals ((path, ph) # cls) item =
     (case (if prefix ''#'' path then map_of names path else Some path) of
        None \<Rightarrow> None
      | Some attr \<Rightarrow>
          (case map_of vals ph of
             None \<Rightarrow> None
           | Some v \<Rightarrow> apply_clauses names vals cls (py_setitem item attr v)))"

definition store_update ::
  "(string \<times> pyval) list option \<Rightarrow> update_request \<Rightarrow> (string \<times> pyval) list option" where
  "store_update stored req =
     (case set_clauses (UpdateExpression req) of
        None \<Rightarrow> None
      | Some cls \<Rightarrow>
          apply_clauses (ExpressionAttributeNames req) (ExpressionAttributeValues req) cls
            (case stored of
               Some item \<Rightarrow> item
             | None \<Rightarrow> (case Key req of JObj kvs \<Rightarrow> kvs | _ \<Rightarrow> [])))"

section \<open>Ticketing through the model (bedrock\_integration.py)\<close>

definition intent_prompt :: "string \<Rightarrow> string" where
  \<open>intent_prompt user_input =
     ''\<newline>''
       @ ''        You are a ticketing system agent. Analyze the following user request and extract the relevant information.\<newline>''
       @ ''        Return a JSON object with the following structure:\<newline>''
       @ ''        \<newline>''
       @ ''        For ticket creation:\<newline>''
       @ ''        {\<newline>''
       @ ''            "action": "create_ticket",\<newline>''
       @ ''            "subject": "brief subject of the ticket",\<newline>''
       @ ''            "description": "detailed description of the issue",\<newline>''
       @ ''            "priority": "low|medium|high",\<newline>''
       @ ''            "assigned_to": "person to assign the ticket to (optional)"\<newline>''
       @ ''        }\<newline>''
       @ ''        \<newline>''
       @ ''        For ticket status:\<newline>''
       @ ''        {\<newline>''
       @ ''            "action": "get_ticket_status",\<newline>''
       @ ''            "ticket_id": "the ID of the ticket"\<newline>''
       @ ''        }\<newline>''
       @ ''        \<newline>''
       @ ''        For ticket cancellation:\<newline>''
       @ ''        {\<newline>''
       @ ''            "action": "cancel_ticket",\<newline>''
       @ ''            "ticket_id": "the ID of the ticket",\<newline>''
       @ ''            "reason": "reason for cancellation (optional)"\<newline>''
       @ ''        }\<newline>''
       @ ''        \<newline>''
       @ ''        User request: ''
       @ user_input
       @ ''\<newline>''
       @ ''        \<newline>''
       @ ''        JSON response:\<newline>''
       @ ''        ''\<close>

definition unknown_intent :: pyval where
  "unknown_intent = JObj [(''action'', JStr ''unknown'')]"

text \<open>
  \<open>_determine_intent\<close>: the model call and the reading of its reply are outside the
  \<open>try\<close> block; inside it only JSONDecodeError and ValueError are caught.
\<close>

definition determine_intent ::
  "world \<Rightarrow> config \<Rightarrow> event list \<Rightarrow> string \<Rightarrow> (exn + pyval) \<times> event list" where
  "determine_intent w cfg log user_input =
     (let prompt = intent_prompt user_input;
          log1 = log @ [InvokeModel (model_id cfg) prompt]
      in bind_exn (bedrock_invoke_model w log (model_id cfg) prompt) log1 (\<lambda>response_body.
         bind_exn (model_text response_body ''{}'') log1 (\<lambda>content.
           case content of
             JStr c \<Rightarrow>
               (let start_idx = py_find c ''{'';
                    end_idx = py_rfind c ''}'' + 1
                in if 0 \<le> start_idx \<and> start_idx < end_idx then
                     (case json_loads w (py_slice c start_idx end_idx) of
                        Inl m \<Rightarrow> (Inr unknown_intent, log1)
                      | Inr intent \<Rightarrow> (Inr intent, log1))
                   else (Inr unknown_intent, log1))
           | _ \<Rightarrow> (Inl (no_attribute content ''find''), log1))))"

text \<open>\<open>BedrockTicketingAgent.process_request\<close>.\<close>

definition ticketing_process_request ::
  "world \<Rightarrow> config \<Rightarrow> event list \<Rightarrow> string \<Rightarrow> (exn + pyval) \<times> event list" where
  "ticketing_process_request w cfg log user_input =
     (case determine_intent w cfg log user_input of
        (Inl e, log1) \<Rightarrow> (Inl e, log1)
      | (Inr intent, log1) \<Rightarrow>
          bind_exn (py_getitem intent ''action'') log1 (\<lambda>action.
            if action = JStr ''create_ticket'' then
              bind_exn (py_get intent ''subject'' (JStr ''No subject provided'')) log1 (\<lambda>subject.
              bind_exn (py_get intent ''description'' (JStr ''No description provided'')) log1 (\<lambda>description.
              bind_exn (py_get intent ''priority'' (JStr ''medium'')) log1 (\<lambda>priority.
              bind_exn (py_get intent ''assigned_to'' JNull) log1 (\<lambda>assigned_to.
                case create_ticket w log1 (Some subject) (Some description) None None
                       (Some priority) (Some assigned_to) of
                  (Inl e, log2) \<Rightarrow> (Inl e, log2)
                | (Inr ticket, log2) \<Rightarrow>
                    (Inr (JObj [(''action'', JStr ''create_ticket''),
                                (''success'', JBool (ticket \<noteq> JNull)),
                                (''ticket'', ticket)]), log2)))))
            else if action = JStr ''get_ticket_status'' then
              bind_exn (py_get intent ''ticket_id'' JNull) log1 (\<lambda>ticket_id.
                if \<not> truthy ticket_id then
                  (Inr (JObj [(''action'', JStr ''get_ticket_status''),
                              (''success'', JBool False),
                              (''error'', JStr ''No ticket ID provided'')]), log1)
                else
                  (case get_ticket_status w log1 ticket_id of
                     (Inl e, log2) \<Rightarrow> (Inl e, log2)
                   | (Inr ticket, log2) \<Rightarrow>
                       (Inr (JObj [(''action'', JStr ''get_ticket_status''),
                                   (''success'', JBool (ticket \<noteq> JNull)),
                                   (''ticket'', ticket)]), log2)))
            else if action = JStr ''cancel_ticket'' then
              bind_exn (py_get intent ''ticket_id'' JNull) log1 (\<lambda>ticket_id.
                if \<not> truthy ticket_id then
                  (Inr (JObj [(''action'', JStr ''cancel_ticket''),
                              (''success'', JBool False),
                              (''error'', JStr ''No ticket ID provided'')]), log1)
                else
                  bind_exn (py_get intent ''reason'' JNull) log1 (\<lambda>reason.
                    case cancel_ticket w log1 ticket_id reason of
                      (Inl e, log2) \<Rightarrow> (Inl e, log2)
                    | (Inr success, log2) \<Rightarrow>
                        (Inr (JObj [(''action'', JStr ''cancel_ticket''),
                                    (''success'', JBool success),
                                    (''ticket_id'', ticket_id)]), log2)))
            else
              (Inr (JObj [(''action'', JStr ''unknown''),
                          (''success'', JBool False),
                          (''error'', JStr ''Could not determine the requested action'')]), log1)))"

section \<open>FAQ agent (faq\_agent.py)\<close>

record doc =
  doc_content :: string
  doc_source :: string
  doc_relevance :: nat

text \<open>
  The loop over \<open>response.get('Contents', [])\<close>. \<open>query_terms\<close> is the set computed
  before the loop; a document is fetched only when the loop has not stopped and the key
  has one of the three extensions.
\<close>

fun retrieve_loop ::
  "world \<Rightarrow> config \<Rightarrow> string set \<Rightarrow> int \<Rightarrow> string list \<Rightarrow> doc list \<Rightarrow> event list
     \<Rightarrow> (exn + doc list) \<times> event list" where
  "retrieve_loop w cfg query_terms max_docs [] relevant_docs log = (Inr relevant_docs, log)"
| "retrieve_loop w cfg query_terms max_docs (key # keys) relevant_docs log =
     (if max_docs \<le> int (length relevant_docs) then (Inr relevant_docs, log)
      else if \<not> suffix ''.txt'' key \<and> \<not> suffix ''.md'' key \<and> \<not> suffix ''.json'' key
      then retrieve_loop w cfg query_terms max_docs keys relevant_docs log
      else
        (case s3_get_object w log (s3_bucket cfg) key of
           Inl e \<Rightarrow> (Inl e, log @ [GetObject (s3_bucket cfg) key])
         | Inr body \<Rightarrow>
             (let content_terms = set (py_split (lower body));
                  overlap = card (query_terms \<inter> content_terms)
              in if 0 < overlap
                 then retrieve_loop w cfg query_terms max_docs keys
                        (relevant_docs @ [\<lparr>doc_content = body, doc_source = key, doc_relevance = overlap\<rparr>])
                        (log @ [GetObject (s3_bucket cfg) key])
                 else retrieve_loop w cfg query_terms max_docs keys relevant_docs
                        (log @ [GetObject (s3_bucket cfg) key]))))"

text \<open>
  \<open>list.sort(key=..., reverse=True)\<close> is stable: documents of equal relevance keep
  their order. \<open>xs[:n]\<close> counts from the end when \<open>n\<close> is negative.
\<close>

definition sort_by_relevance :: "doc list \<Rightarrow> doc list" where
  "sort_by_relevance docs = sort_key (\<lambda>d. - int (doc_relevance d)) docs"

definition py_take :: "int \<Rightarrow> 'a list \<Rightarrow> 'a list" where
  "py_take n xs = (if 0 \<le> n then take (nat n) xs else take (length xs - nat (- n)) xs)"

text \<open>\<open>except ClientError\<close>: every other exception leaves the function.\<close>

definition except_client_error ::
  "exn \<Rightarrow> event list \<Rightarrow> (exn + doc list) \<times> event list" where
  "except_client_error e log = (case e of ClientError m \<Rightarrow> (Inr [], log) | _ \<Rightarrow> (Inl e, log))"

definition retrieve_relevant_documents ::
  "world \<Rightarrow> config \<Rightarrow> event list \<Rightarrow> string \<Rightarrow> int \<Rightarrow> (exn + doc list) \<times> event list" where
  "retrieve_relevant_documents w cfg log query max_docs =
     (let log1 = log @ [ListObjects (s3_bucket cfg) (s3_prefix cfg)]
      in case s3_list_objects_v2 w log (s3_bucket cfg) (s3_prefix cfg) of
           Inl e \<Rightarrow> except_client_error e log1
         | Inr None \<Rightarrow> (Inr [], log1)
         | Inr (Some keys) \<Rightarrow>
             (let query_terms = set (py_split (lower query))
              in case retrieve_loop w cfg query_terms max_docs keys [] log1 of
                   (Inl e, log2) \<Rightarrow> except_client_error e log2
                 | (Inr relevant_docs, log2) \<Rightarrow>
                     (Inr (py_take max_docs (sort_by_relevance relevant_docs)), log2)))"

fun py_join :: "string \<Rightarrow> string list \<Rightarrow> string" where
  "py_join sep [] = []"
| "py_join sep [x] = x"
| "py_join sep (x # y # ys) = x @ sep @ py_join sep (y # ys)"

definition answer_prompt :: "string \<Rightarrow> string \<Rightarrow> string" where
  \<open>answer_prompt context query =
     ''\<newline>''
       @ ''        You are a helpful assistant answering questions based on the provided knowledge base.\<newline>''
       @ ''        Use ONLY the information in the following documents to answer the question.\<newline>''
       @ ''        If the documents don't contain the answer, say "I don't have enough information to answer this question."\<newline>''
       @ ''        \<newline>''
       @ ''        KNOWLEDGE BASE DOCUMENTS:\<newline>''
       @ ''        ''
       @ context
       @ ''\<newline>''
       @ ''        \<newline>''
       @ ''        QUESTION: ''
       @ query
       @ ''\<newline>''
       @ ''        \<newline>''
       @ ''        ANSWER:\<newline>''
       @ ''        ''\<close>

definition no_information :: pyval where
  "no_information = JObj
     [(''answer'', JStr ''I couldn't find any relevant information in the knowledge base.''),
      (''sources'', JList [])]"

definition answer_failed :: pyval where
  "answer_failed = JObj
     [(''answer'', JStr ''I encountered an error while trying to answer your question.''),
      (''sources'', JList [])]"

definition answer_question ::
  "world \<Rightarrow> config \<Rightarrow> event list \<Rightarrow> string \<Rightarrow> (exn + pyval) \<times> event list" where
  "answer_question w cfg log query =
     (case retrieve_relevant_documents w cfg log query 3 of
        (Inl e, log1) \<Rightarrow> (Inl e, log1)
      | (Inr relevant_docs, log1) \<Rightarrow>
          if relevant_docs = [] then (Inr no_information, log1)
          else
            (let context = py_join ''\<newline>\<newline>''
                   (map (\<lambda>d. ''Document from '' @ doc_source d @ '':\<newline>'' @ doc_content d) relevant_docs);
                 sources = map doc_source relevant_docs;
                 prompt = answer_prompt context query;
                 log2 = log1 @ [InvokeModel (model_id cfg) prompt]
             in case bedrock_invoke_model w log1 (model_id cfg) prompt of
                  Inl e \<Rightarrow> (Inr answer_failed, log2)
                | Inr response_body \<Rightarrow>
                    (case model_text response_body [] of
                       Inl e \<Rightarrow> (Inr answer_failed, log2)
                     | Inr answer \<Rightarrow>
                         (Inr (JObj [(''answer'', answer),
                                     (''sources'', JList (map JStr sources))]), log2))))"

section \<open>The router (multi\_agent\_system.py)\<close>

definition emergency_keywords :: "string list" where
  "emergency_keywords =
     [''emergency'', ''accident'', ''injury'', ''fire'', ''urgent'', ''help'', ''danger'']"

text \<open>
  The \<open>try\<close> block of \<open>_extract_routing_decision\<close> for one fragment: \<open>Inr (Some r)\<close>
  when it returns \<open>r\<close>, \<open>Inr None\<close> when control falls through to the keyword rules
  (also after a caught JSONDecodeError), \<open>Inl e\<close> when an exception leaves it.
\<close>

definition json_routing :: "world \<Rightarrow> pyval \<Rightarrow> exn + pyval option" where
  \<open>json_routing w content =
     (case py_contains content ''{"agent":'' of
        Inl e \<Rightarrow> Inl e
      | Inr False \<Rightarrow> Inr None
      | Inr True \<Rightarrow>
          (case content of
             JStr c \<Rightarrow>
               (let start_idx = py_find c ''{'';
                    end_idx = py_rfind c ''}'' + 1
                in if 0 \<le> start_idx \<and> start_idx < end_idx then
                     (case json_loads w (py_slice c start_idx end_idx) of
                        Inl m \<Rightarrow> Inr None
                      | Inr routing_info \<Rightarrow>
                          (case py_contains routing_info ''agent'' of
                             Inl e \<Rightarrow> Inl e
                           | Inr True \<Rightarrow> Inr (Some routing_info)
                           | Inr False \<Rightarrow> Inr None))
                   else Inr None)
           | _ \<Rightarrow> Inl (no_attribute content ''find'')))\<close>

text \<open>The keyword rules on the lowercased content: the agent they select, if any.\<close>

definition keyword_agent :: "string \<Rightarrow> string option" where
  "keyword_agent content_lower =
     (if py_in ''ticket'' content_lower \<or> py_in ''create ticket'' content_lower
         \<or> py_in ''cancel ticket'' content_lower then Some ''ticketing''
      else if py_in ''question'' content_lower \<or> py_in ''faq'' content_lower
         \<or> py_in ''knowledge base'' content_lower then Some ''faq''
      else if py_in ''emergency'' content_lower \<or> py_in ''urgent'' content_lower
      then Some ''emergency''
      else None)"

fun routing_loop :: "world \<Rightarrow> pyval list \<Rightarrow> (string \<times> pyval) list \<Rightarrow> exn + pyval" where
  "routing_loop w [] decision = Inr (JObj decision)"
| "routing_loop w (message # messages) decision =
     (case py_get message ''content'' (JStr []) of
        Inl e \<Rightarrow> Inl e
      | Inr content \<Rightarrow>
          (case json_routing w content of
             Inl e \<Rightarrow> Inl e
           | Inr (Some routing_info) \<Rightarrow> Inr routing_info
           | Inr None \<Rightarrow>
               (case content of
                  JStr c \<Rightarrow>
                    (case keyword_agent (lower c) of
                       Some a \<Rightarrow> routing_loop w messages (py_setitem decision ''agent'' (JStr a))
                     | None \<Rightarrow> routing_loop w messages decision)
                | _ \<Rightarrow> Inl (no_attribute content ''lower''))))"

definition extract_routing_decision :: "world \<Rightarrow> pyval \<Rightarrow> exn + pyval" where
  "extract_routing_decision w supervisor_response =
     (case py_get supervisor_response ''messages'' (JList []) of
        Inl e \<Rightarrow> Inl e
      | Inr messages \<Rightarrow>
          (case py_iter messages of
             Inl e \<Rightarrow> Inl e
           | Inr ms \<Rightarrow> routing_loop w ms [(''agent'', JStr ''supervisor'')]))"

definition extract_supervisor_message :: "pyval \<Rightarrow> exn + pyval" where
  "extract_supervisor_message supervisor_response =
     (case py_get supervisor_response ''messages'' (JList []) of
        Inl e \<Rightarrow> Inl e
      | Inr messages \<Rightarrow>
          if truthy messages then
            (case py_index0 messages of
               Inl e \<Rightarrow> Inl e
             | Inr m \<Rightarrow> py_get m ''content'' (JStr []))
          else Inr (JStr []))"

text \<open>Lines 74 to 92 of \<open>MultiAgentSystem.process_request\<close>: everything after the pre-check.\<close>

definition route_by_supervisor ::
  "world \<Rightarrow> config \<Rightarrow> event list \<Rightarrow> string \<Rightarrow> string option \<Rightarrow> (exn + pyval) \<times> event list" where
  "route_by_supervisor w cfg log user_input session_id =
     (case invoke_agent w cfg log user_input session_id of
        (Inl e, log1) \<Rightarrow> (Inl e, log1)
      | (Inr supervisor_response, log1) \<Rightarrow>
          bind_exn (extract_routing_decision w supervisor_response) log1 (\<lambda>routing_decision.
          bind_exn (py_get routing_decision ''agent'' JNull) log1 (\<lambda>agent.
            if agent = JStr ''ticketing'' then ticketing_process_request w cfg log1 user_input
            else if agent = JStr ''faq'' then answer_question w cfg log1 user_input
            else if agent = JStr ''emergency'' then handle_emergency_request w cfg log1 user_input
            else
              bind_exn (extract_supervisor_message supervisor_response) log1 (\<lambda>message.
              bind_exn (py_get supervisor_response ''sessionId'' JNull) log1 (\<lambda>sid.
                (Inr (JObj [(''response'', message), (''session_id'', sid)]), log1))))))"

text \<open>\<open>MultiAgentSystem.process_request\<close>: the pre-check of lines 67 to 72, then the rest.\<close>

definition process_request ::
  "world \<Rightarrow> config \<Rightarrow> event list \<Rightarrow> string \<Rightarrow> string option \<Rightarrow> (exn + pyval) \<times> event list" where
  "process_request w cfg log user_input session_id =
     (if list_ex (\<lambda>keyword. py_in keyword (lower user_input)) emergency_keywords then
        (case evaluate_emergency w cfg log user_input of
           (emergency_evaluation, log1) \<Rightarrow>
             (case py_get emergency_evaluation ''is_emergency'' (JBool False) of
                Inl e \<Rightarrow> (Inl e, log1)
              | Inr is_em \<Rightarrow>
                  if truthy is_em then handle_emergency_request w cfg log1 user_input
                  else route_by_supervisor w cfg log1 user_input session_id))
      else route_by_supervisor w cfg log user_input session_id)"

section \<open>Guardrails (guardrails\_integration.py)\<close>

definition pass_through :: "string \<Rightarrow> pyval \<Rightarrow> pyval" where
  "pass_through field text = JObj
     [(''is_blocked'', JBool False),
      (field, text),
      (''blocked_reasons'', JList [])]"

text \<open>
  The \<open>try\<close> block shared by \<open>apply_guardrails\<close> (\<open>direction = ''input''\<close>, result
  field \<open>filtered_input\<close>) and \<open>apply_guardrails_to_output\<close> (\<open>''output''\<close>,
  \<open>filtered_output\<close>), which differ in these two strings only.
\<close>

definition guardrail_try ::
  "world \<Rightarrow> event list \<Rightarrow> string \<Rightarrow> string \<Rightarrow> string \<Rightarrow> string \<Rightarrow> pyval \<Rightarrow> exn + pyval" where
  "guardrail_try w log gid gver direction field text =
     (case bedrock_apply_guardrail w log gid gver (json_dumps w None (JObj [(direction, text)])) of
        Inl e \<Rightarrow> Inl e
      | Inr result \<Rightarrow>
     (case py_get result ''assessment'' (JObj []) of
        Inl e \<Rightarrow> Inl e
      | Inr assessment \<Rightarrow>
     (case py_get assessment ''topicPolicy'' (JObj []) of
        Inl e \<Rightarrow> Inl e
      | Inr topic_policy \<Rightarrow>
     (case py_get topic_policy ''blocked'' (JBool False) of
        Inl e \<Rightarrow> Inl e
      | Inr blocked \<Rightarrow>
     (case py_get result ''output'' text of
        Inl e \<Rightarrow> Inl e
      | Inr filtered \<Rightarrow>
     (case py_get topic_policy ''topics'' (JList []) of
        Inl e \<Rightarrow> Inl e
      | Inr topics \<Rightarrow>
          Inr (JObj [(''is_blocked'', blocked),
                     (field, filtered),
                     (''blocked_reasons'', topics)])))))))"

definition guardrail_pass ::
  "world \<Rightarrow> config \<Rightarrow> event list \<Rightarrow> string \<Rightarrow> string \<Rightarrow> pyval \<Rightarrow> pyval \<times> event list" where
  "guardrail_pass w cfg log direction field text =
     (case guardrail_id cfg of
        None \<Rightarrow> (pass_through field text, log)
      | Some gid \<Rightarrow>
     (case guardrail_version cfg of
        None \<Rightarrow> (pass_through field text, log)
      | Some gver \<Rightarrow>
          if gid = [] \<or> gver = [] then (pass_through field text, log)
          else
            (let log1 = log @ [ApplyGuardrail gid gver
                                 (json_dumps w None (JObj [(direction, text)]))]
             in case guardrail_try w log gid gver direction field text of
                  Inl e \<Rightarrow> (pass_through field text, log1)
                | Inr r \<Rightarrow> (r, log1))))"

definition apply_guardrails ::
  "world \<Rightarrow> config \<Rightarrow> event list \<Rightarrow> pyval \<Rightarrow> pyval \<times> event list" where
  "apply_guardrails w cfg log input_text =
     guardrail_pass w cfg log ''input'' ''filtered_input'' input_text"

definition apply_guardrails_to_output ::
  "world \<Rightarrow> config \<Rightarrow> event list \<Rightarrow> pyval \<Rightarrow> pyval \<times> event list" where
  "apply_guardrails_to_output w cfg log output_text =
     guardrail_pass w cfg log ''output'' ''filtered_output'' output_text"

section \<open>The safety gate (secure\_multi\_agent\_system.py)\<close>

definition extract_response_text :: "world \<Rightarrow> pyval \<Rightarrow> pyval" where
  "extract_response_text w response =
     (case response of
        JStr s \<Rightarrow> JStr s
      | JObj kvs \<Rightarrow>
          (case map_of kvs ''message'' of
             Some v \<Rightarrow> v
           | None \<Rightarrow>
          (case map_of kvs ''answer'' of
             Some v \<Rightarrow> v
           | None \<Rightarrow>
          (case map_of kvs ''response'' of
             Some v \<Rightarrow> v
           | None \<Rightarrow> JStr (json_dumps w None response))))
      | _ \<Rightarrow> JStr (py_repr w response))"

definition update_response_text :: "pyval \<Rightarrow> pyval \<Rightarrow> pyval" where
  "update_response_text response filtered_text =
     (case response of
        JStr s \<Rightarrow> filtered_text
      | JObj kvs \<Rightarrow>
          (if ''message'' \<in> set (map fst kvs) then JObj (py_setitem kvs ''message'' filtered_text)
           else if ''answer'' \<in> set (map fst kvs) then JObj (py_setitem kvs ''answer'' filtered_text)
           else if ''response'' \<in> set (map fst kvs) then JObj (py_setitem kvs ''response'' filtered_text)
           else JObj (py_setitem kvs ''filtered_response'' filtered_text))
      | _ \<Rightarrow> JObj [(''response'', filtered_text)])"

definition blocked_response :: "pyval \<Rightarrow> pyval" where
  "blocked_response reasons = JObj
     [(''status'', JStr ''blocked_by_guardrails''),
      (''message'', JStr ''I'm sorry, but I cannot process this request as it violates our content policies.''),
      (''blocked_reasons'', reasons)]"

definition output_blocked_response :: "pyval \<Rightarrow> pyval" where
  "output_blocked_response reasons = JObj
     [(''status'', JStr ''output_blocked_by_guardrails''),
      (''message'', JStr ''I'm sorry, but I cannot provide the generated response as it violates our content policies.''),
      (''blocked_reasons'', reasons)]"

text \<open>
  \<open>SecureMultiAgentSystem.process_request\<close>. The router first lowercases its input,
  which only a string supports.
\<close>

definition secure_process_request ::
  "world \<Rightarrow> config \<Rightarrow> event list \<Rightarrow> string \<Rightarrow> string option \<Rightarrow> (exn + pyval) \<times> event list" where
  "secure_process_request w cfg log user_input session_id =
     (case apply_guardrails w cfg log (JStr user_input) of
        (input_guardrail_result, log1) \<Rightarrow>
          bind_exn (py_get input_guardrail_result ''is_blocked'' (JBool False)) log1 (\<lambda>blocked.
            if truthy blocked then
              bind_exn (py_get input_guardrail_result ''blocked_reasons'' (JList [])) log1 (\<lambda>reasons.
                (Inr (blocked_response reasons), log1))
            else
              bind_exn (py_get input_guardrail_result ''filtered_input'' (JStr user_input)) log1
                (\<lambda>filtered_input.
                  case filtered_input of
                    JStr fi \<Rightarrow>
                      (case process_request w cfg log1 fi session_id of
                         (Inl e, log2) \<Rightarrow> (Inl e, log2)
                       | (Inr response, log2) \<Rightarrow>
                           (let response_text = extract_response_text w response
                            in case apply_guardrails_to_output w cfg log2 response_text of
                                 (output_guardrail_result, log3) \<Rightarrow>
                                   bind_exn (py_get output_guardrail_result ''is_blocked'' (JBool False)) log3
                                     (\<lambda>out_blocked.
                                       if truthy out_blocked then
                                         bind_exn (py_get output_guardrail_result ''blocked_reasons'' (JList [])) log3
                                           (\<lambda>reasons. (Inr (output_blocked_response reasons), log3))
                                       else
                                         bind_exn (py_get output_guardrail_result ''filtered_output'' response_text) log3
                                           (\<lambda>filtered_output.
                                             (Inr (update_response_text response filtered_output), log3)))))
                  | _ \<Rightarrow> (Inl (no_attribute filtered_input ''lower''), log1))))"

section \<open>Concrete collaborators and configurations\<close>

text \<open>
  A world in which every service is down or empty, and a full configuration. The
  theorems below are instantiated at variations of these.
\<close>

definition quiet_world :: world where
  "quiet_world =
     \<lparr>json_loads = (\<lambda>s. Inl ''Expecting value: line 1 column 1 (char 0)''),
      json_dumps = (\<lambda>indent v. ''<json>''),
      py_repr = (\<lambda>v. ''<repr>''),
      utcnow_isoformat = (\<lambda>log. ''2024-05-01T12:00:00''),
      uuid4_str = (\<lambda>log. ''1b4e28ba-2fa1-41d2-883f-0016d3cca427''),
      bedrock_invoke_model = (\<lambda>log mid prompt. Inl (OtherError ''model endpoint unreachable'')),
      agent_runtime_invoke_agent = (\<lambda>log request. Inl (OtherError ''agent endpoint unreachable'')),
      bedrock_apply_guardrail = (\<lambda>log gid gver body. Inl (OtherError ''guardrail endpoint unreachable'')),
      s3_list_objects_v2 = (\<lambda>log bucket pfx. Inr None),
      s3_get_object = (\<lambda>log bucket key. Inl (ClientError ''NoSuchKey'')),
      table_put_item = (\<lambda>log item. None),
      table_get_item = (\<lambda>log key. Inr (JObj [])),
      table_update_item = (\<lambda>log request. None)\<rparr>"

definition full_config :: config where
  "full_config =
     \<lparr>agent_id = Some ''AGENT1'',
      agent_alias_id = Some ''ALIAS1'',
      model_id = ''anthropic.claude-3-sonnet-20240229-v1:0'',
      s3_bucket = Some ''kb-bucket'',
      s3_prefix = ''knowledge_base/'',
      sns_topic_arn = Some ''arn:aws:sns:us-east-1:1:alerts'',
      guardrail_id = Some ''gr-1'',
      guardrail_version = Some ''1''\<rparr>"

text \<open>The reply body of the model that carries the given text.\<close>

definition text_body :: "string \<Rightarrow> pyval" where
  "text_body t = JObj [(''content'', JList [JObj [(''text'', JStr t)]])]"

text \<open>A model whose reply has braces but is not JSON.\<close>

definition garbled_world :: world where
  \<open>garbled_world = quiet_world
     \<lparr>bedrock_invoke_model := (\<lambda>log mid prompt. Inr (text_body ''{"is_emergency": tru}''))\<rparr>\<close>

section \<open>The safety gate\<close>

text \<open>The filter call a pass makes: none when the guardrail is not configured.\<close>

definition filter_events :: "world \<Rightarrow> config \<Rightarrow> string \<Rightarrow> pyval \<Rightarrow> event list" where
  "filter_events w cfg direction text =
     (case (guardrail_id cfg, guardrail_version cfg) of
        (Some gid, Some gver) \<Rightarrow>
          if gid = [] \<or> gver = [] then []
          else [ApplyGuardrail gid gver (json_dumps w None (JObj [(direction, text)]))]
      | _ \<Rightarrow> [])"

text \<open>A filter that blocks everything, and a configuration without guardrail.\<close>

definition blocking_world :: world where
  "blocking_world = quiet_world
     \<lparr>bedrock_apply_guardrail := (\<lambda>log gid gver body.
        Inr (JObj [(''assessment'', JObj [(''topicPolicy'',
               JObj [(''blocked'', JBool True), (''topics'', JList [JStr ''violence''])])])]))\<rparr>"

definition unguarded_config :: config where
  "unguarded_config = full_config\<lparr>guardrail_id := None\<rparr>"

text \<open>The calls retrieval makes: listing and fetching documents.\<close>

fun is_store_read :: "event \<Rightarrow> bool" where
  "is_store_read (ListObjects b p) = True"
| "is_store_read (GetObject b k) = True"
| "is_store_read ev = False"

text \<open>A document store with four keys, one of them not a document.\<close>

definition library_world :: world where
  "library_world = quiet_world
     \<lparr>s3_list_objects_v2 := (\<lambda>log bucket pfx. Inr (Some [''a.txt'', ''b.png'', ''c.md'', ''d.json''])),
      s3_get_object := (\<lambda>log bucket key.
         if key = ''a.txt'' then Inr ''Our RETURN desk''
         else if key = ''c.md'' then Inr ''return policy here''
         else if key = ''d.json'' then Inr ''policy''
         else Inl (ClientError ''NoSuchKey''))\<rparr>"

section \<open>Reading the routing decision in the words of the specification\<close>

text \<open>
  A reply fragment is a dictionary whose \<open>content\<close>, when present, is a string;
  \<open>fragment_text\<close> is that string. A fragment holds no structured agent object when it
  lacks the marker \<open>{"agent":\<close>, or has no pair of braces, or the text between its
  first \<open>{\<close> and last \<open>}\<close> is not JSON, or is an object without the key \<open>agent\<close>.
  \<open>last_matching_agent\<close> is the agent of the last fragment that matches a keyword
  group, \<open>supervisor\<close> when none does.
\<close>

definition fragment_text :: "pyval \<Rightarrow> string option" where
  "fragment_text m =
     (case m of
        JObj kvs \<Rightarrow>
          (case map_of kvs ''content'' of
             None \<Rightarrow> Some []
           | Some (JStr c) \<Rightarrow> Some c
           | Some _ \<Rightarrow> None)
      | _ \<Rightarrow> None)"

definition no_agent_object :: "world \<Rightarrow> string \<Rightarrow> bool" where
  \<open>no_agent_object w c =
     (\<not> py_in ''{"agent":'' c
      \<or> \<not> (0 \<le> py_find c ''{'' \<and> py_find c ''{'' < py_rfind c ''}'' + 1)
      \<or> (case json_loads w (py_slice c (py_find c ''{'') (py_rfind c ''}'' + 1)) of
            Inl m \<Rightarrow> True
          | Inr (JObj kvs) \<Rightarrow> ''agent'' \<notin> set (map fst kvs)
          | Inr _ \<Rightarrow> False))\<close>

definition last_matching_agent :: "string list \<Rightarrow> string" where
  "last_matching_agent texts =
     (case List.map_filter (\<lambda>t. keyword_agent (lower t)) texts of
        [] \<Rightarrow> ''supervisor''
      | a # as \<Rightarrow> last (a # as))"

definition first_text :: "pyval list \<Rightarrow> string" where
  "first_text ms = (case ms of [] \<Rightarrow> [] | f # _ \<Rightarrow> the (fragment_text f))"

text \<open>
  The supervisor's reply text in the words of the specification: the texts of the
  fragments of the reply, in order.
\<close>

definition reply_text :: "pyval list \<Rightarrow> string" where
  "reply_text ms = concat (map (\<lambda>f. the (fragment_text f)) ms)"

text \<open>
  A supervisor whose reply comes in two fragments with a session, and the JSON texts
  the examples parse.
\<close>

definition routing_world :: world where
  \<open>routing_world = quiet_world
     \<lparr>json_loads := (\<lambda>s.
        if s = ''{"agent": "faq"}'' then Inr (JObj [(''agent'', JStr ''faq'')])
        else if s = ''{"content": "Your order"}''
        then Inr (JObj [(''content'', JStr ''Your order'')])
        else if s = ''{"content": " ships on Monday."}''
        then Inr (JObj [(''content'', JStr '' ships on Monday.'')])
        else Inl ''Expecting value: line 1 column 1 (char 0)''),
      agent_runtime_invoke_agent := (\<lambda>log request.
        Inr \<lparr>completion = [Inr (Some ''{"content": "Your order"}''),
                           Inr (Some ''{"content": " ships on Monday."}'')],
             response_sessionId = Some ''sess-1''\<rparr>)\<rparr>\<close>

section \<open>Retrieval in the words of the specification\<close>

text \<open>
  For a fixed store (\<open>store key\<close> is the body under \<open>key\<close>): the relevance of a body is
  the number of distinct lowercase whitespace-separated terms it shares with the query;
  a key is a candidate when it has one of the three extensions and positive relevance;
  \<open>scanned\<close> is the part of the listing examined until \<open>n\<close> candidates have been
  found; \<open>collected\<close> holds the first \<open>max_docs\<close> candidates in listing order, and
  \<open>spec_retrieve\<close> sorts them by descending relevance, stably, and keeps at most
  \<open>max_docs\<close>.
\<close>

definition has_doc_extension :: "string \<Rightarrow> bool" where
  "has_doc_extension key = (suffix ''.txt'' key \<or> suffix ''.md'' key \<or> suffix ''.json'' key)"

definition term_overlap :: "string \<Rightarrow> string \<Rightarrow> nat" where
  "term_overlap query body = card (set (py_split (lower query)) \<inter> set (py_split (lower body)))"

definition is_candidate :: "(string \<Rightarrow> string) \<Rightarrow> string \<Rightarrow> string \<Rightarrow> bool" where
  "is_candidate store query key = (has_doc_extension key \<and> 0 < term_overlap query (store key))"

definition match_of :: "(string \<Rightarrow> string) \<Rightarrow> string \<Rightarrow> string \<Rightarrow> doc" where
  "match_of store query key =
     \<lparr>doc_content = store key, doc_source = key, doc_relevance = term_overlap query (store key)\<rparr>"

fun scanned :: "(string \<Rightarrow> bool) \<Rightarrow> nat \<Rightarrow> string list \<Rightarrow> string list" where
  "scanned cand 0 keys = []"
| "scanned cand (Suc n) [] = []"
| "scanned cand (Suc n) (k # ks) = k # scanned cand (if cand k then n else Suc n) ks"

definition collected :: "(string \<Rightarrow> string) \<Rightarrow> string \<Rightarrow> int \<Rightarrow> string list \<Rightarrow> doc list" where
  "collected store query max_docs keys =
     map (match_of store query) (take (nat max_docs) (filter (is_candidate store query) keys))"

definition spec_retrieve :: "(string \<Rightarrow> string) \<Rightarrow> string \<Rightarrow> int \<Rightarrow> string list \<Rightarrow> doc list" where
  "spec_retrieve store query max_docs keys =
     take (nat max_docs) (sort_by_relevance (collected store query max_docs keys))"

text \<open>The bodies of the example store as a function of the key.\<close>

definition library_store :: "string \<Rightarrow> string" where
  "library_store key =
     (if key = ''a.txt'' then ''Our RETURN desk''
      else if key = ''c.md'' then ''return policy here''
      else if key = ''d.json'' then ''policy''
      else [])"

text \<open>
  Stores whose update call fails: with a connection error of the client, and with a
  service error. \<open>stored_base\<close> is the record an update starts from: the stored one,
  or the key alone when there is none. \<open>open_ticket\<close> is a stored ticket.
\<close>

definition offline_world :: world where
  "offline_world = quiet_world
     \<lparr>table_update_item := (\<lambda>log request. Some (OtherError ''Could not connect to the endpoint URL''))\<rparr>"

definition throttled_world :: world where
  "throttled_world = quiet_world
     \<lparr>table_update_item := (\<lambda>log request. Some (ClientError ''ProvisionedThroughputExceededException''))\<rparr>"

definition stored_base :: "(string \<times> pyval) list option \<Rightarrow> pyval \<Rightarrow> (string \<times> pyval) list" where
  "stored_base stored ticket_id =
     (case stored of Some item \<Rightarrow> item | None \<Rightarrow> [(''ticket_id'', ticket_id)])"

definition open_ticket :: "(string \<times> pyval) list" where
  "open_ticket =
     [(''ticket_id'', JStr ''T-1''),
      (''subject'', JStr ''Printer''),
      (''status'', JStr ''open''),
      (''priority'', JStr ''high''),
      (''created_at'', JStr ''2024-04-30T09:00:00''),
      (''updated_at'', JStr ''2024-04-30T09:00:00'')]"

text \<open>
  A supervisor that routes to ticketing with a model that answers with a ticket
  creation intent; a model that always reports a critical emergency; the publish events
  of a trace.
\<close>

definition ticket_world :: world where
  \<open>ticket_world = quiet_world
     \<lparr>json_loads := (\<lambda>s.
        if s = ''{"content": "Route this to the ticketing agent"}''
        then Inr (JObj [(''content'', JStr ''Route this to the ticketing agent'')])
        else if s = ''{"action": "create_ticket", "subject": "Broken printer"}''
        then Inr (JObj [(''action'', JStr ''create_ticket''), (''subject'', JStr ''Broken printer'')])
        else Inl ''Expecting value: line 1 column 1 (char 0)''),
      bedrock_invoke_model := (\<lambda>log mid prompt.
        Inr (text_body ''{"action": "create_ticket", "subject": "Broken printer"}'')),
      agent_runtime_invoke_agent := (\<lambda>log request.
        Inr \<lparr>completion = [Inr (Some ''{"content": "Route this to the ticketing agent"}'')],
             response_sessionId = None\<rparr>)\<rparr>\<close>

definition alarm_world :: world where
  \<open>alarm_world = quiet_world
     \<lparr>json_loads := (\<lambda>s.
        if s = ''{"is_emergency": true, "severity": "critical"}''
        then Inr (JObj [(''is_emergency'', JBool True), (''severity'', JStr ''critical'')])
        else Inl ''Expecting value: line 1 column 1 (char 0)''),
      bedrock_invoke_model := (\<lambda>log mid prompt.
        Inr (text_body ''{"is_emergency": true, "severity": "critical"}''))\<rparr>\<close>

fun is_publish :: "event \<Rightarrow> bool" where
  "is_publish (SnsPublish topic subject message) = True"
| "is_publish ev = False"

section \<open>Basic facts\<close>

lemma py_get_obj [simp]:
  "py_get (JObj kvs) k d = Inr (case map_of kvs k of Some v \<Rightarrow> v | None \<Rightarrow> d)"
  by (simp add: py_get_def split: option.splits)

lemma model_text_text_body [simp]: "model_text (text_body t) d = Inr (JStr t)"
  by (simp add: model_text_def text_body_def py_index0_def)

section \<open>Emergency evaluation never raises\<close>

text \<open>
  C5. Whatever exception leaves the \<open>try\<close> block of \<open>evaluate_emergency\<close>, the function
  returns the safe default \<open>is_emergency = False\<close>, \<open>severity = unknown\<close>, no recommended
  actions, and the reasoning \<open>Error: \<close> followed by the text of the exception. In
  particular this is what happens when the model call raises and when the text between
  the braces of the reply is not JSON. The result type of \<open>evaluate_emergency\<close> has no
  exception: nothing propagates to the caller.
\<close>

theorem evaluate_emergency_safe_default:
  "(\<forall>e log'. evaluate_emergency_try w cfg log message = (Inl e, log') \<longrightarrow>
      evaluate_emergency w cfg log message =
        (JObj [(''is_emergency'', JBool False), (''severity'', JStr ''unknown''),
               (''recommended_actions'', JList []),
               (''reasoning'', JStr (''Error: '' @ exn_str e))], log'))
   \<and> (\<forall>e. bedrock_invoke_model w log (model_id cfg) (emergency_prompt message) = Inl e \<longrightarrow>
      evaluate_emergency w cfg log message =
        (JObj [(''is_emergency'', JBool False), (''severity'', JStr ''unknown''),
               (''recommended_actions'', JList []),
               (''reasoning'', JStr (''Error: '' @ exn_str e))],
         log @ [InvokeModel (model_id cfg) (emergency_prompt message)]))
   \<and> (\<forall>body c m. bedrock_invoke_model w log (model_id cfg) (emergency_prompt message) = Inr body \<and>
         model_text body ''{}'' = Inr (JStr c) \<and>
         0 \<le> py_find c ''{'' \<and> py_find c ''{'' < py_rfind c ''}'' + 1 \<and>
         json_loads w (py_slice c (py_find c ''{'') (py_rfind c ''}'' + 1)) = Inl m \<longrightarrow>
      evaluate_emergency w cfg log message =
        (JObj [(''is_emergency'', JBool False), (''severity'', JStr ''unknown''),
               (''recommended_actions'', JList []),
               (''reasoning'', JStr (''Error: '' @ exn_str (JSONDecodeError m)))],
         log @ [InvokeModel (model_id cfg) (emergency_prompt message)]))"
  unfolding evaluate_emergency_def evaluate_emergency_try_def evaluation_error_def Let_def
  by (auto split: sum.splits)

theorem evaluate_emergency_safe_default_witness:
  \<open>evaluate_emergency quiet_world full_config [] ''help, fire!'' =
     (JObj [(''is_emergency'', JBool False), (''severity'', JStr ''unknown''),
            (''recommended_actions'', JList []),
            (''reasoning'', JStr ''Error: model endpoint unreachable'')],
      [InvokeModel (model_id full_config) (emergency_prompt ''help, fire!'')])
   \<and> evaluate_emergency garbled_world full_config [] ''help, fire!'' =
     (JObj [(''is_emergency'', JBool False), (''severity'', JStr ''unknown''),
            (''recommended_actions'', JList []),
            (''reasoning'', JStr ''Error: Expecting value: line 1 column 1 (char 0)'')],
      [InvokeModel (model_id full_config) (emergency_prompt ''help, fire!'')])\<close>
  using evaluate_emergency_safe_default [of quiet_world full_config "[]" "''help, fire!''"]
        evaluate_emergency_safe_default [of garbled_world full_config "[]" "''help, fire!''"]
  by (simp add: quiet_world_def garbled_world_def)

section \<open>The safety gate: blocked input, fail-open filter\<close>

lemma guardrail_pass_shape:
  "\<exists>b f r. guardrail_pass w cfg log direction field text =
     (JObj [(''is_blocked'', b), (field, f), (''blocked_reasons'', r)],
      log @ filter_events w cfg direction text)"
  unfolding guardrail_pass_def guardrail_try_def pass_through_def filter_events_def Let_def
  by (auto split: option.splits sum.splits)

text \<open>
  C3. If the input filter reports blocked (the \<open>is_blocked\<close> entry of its result is
  true), \<open>process_request\<close> of the safety gate returns the response with status
  \<open>blocked_by_guardrails\<close>, the fixed message and the reasons the filter reported, and
  the only external call of the whole request is the one filter call: the router, the
  handlers, the model and the stores are not invoked.
\<close>

theorem blocked_input_stops_pipeline:
  assumes "py_get (fst (apply_guardrails w cfg log (JStr user_input))) ''is_blocked'' (JBool False) = Inr b"
      and "truthy b"
  shows "\<exists>gid gver reasons.
           guardrail_id cfg = Some gid \<and> guardrail_version cfg = Some gver
         \<and> py_get (fst (apply_guardrails w cfg log (JStr user_input))) ''blocked_reasons'' (JList []) = Inr reasons
         \<and> secure_process_request w cfg log user_input session_id =
             (Inr (JObj [(''status'', JStr ''blocked_by_guardrails''),
                         (''message'', JStr ''I'm sorry, but I cannot process this request as it violates our content policies.''),
                         (''blocked_reasons'', reasons)]),
              log @ [ApplyGuardrail gid gver (json_dumps w None (JObj [(''input'', JStr user_input)]))])"
proof -
  have cfgd: "\<exists>gid gver. guardrail_id cfg = Some gid \<and> guardrail_version cfg = Some gver \<and> gid \<noteq> [] \<and> gver \<noteq> []"
    using assms
    unfolding apply_guardrails_def guardrail_pass_def pass_through_def
    by (auto split: option.splits if_splits)
  then obtain gid gver where g: "guardrail_id cfg = Some gid" "guardrail_version cfg = Some gver"
     "gid \<noteq> []" "gver \<noteq> []" by blast
  obtain b' f r where sh: "apply_guardrails w cfg log (JStr user_input) =
     (JObj [(''is_blocked'', b'), (''filtered_input'', f), (''blocked_reasons'', r)],
      log @ filter_events w cfg ''input'' (JStr user_input))"
    unfolding apply_guardrails_def using guardrail_pass_shape by blast
  have b: "b' = b" using assms(1) sh by simp
  have fe: "filter_events w cfg ''input'' (JStr user_input) =
      [ApplyGuardrail gid gver (json_dumps w None (JObj [(''input'', JStr user_input)]))]"
    using g by (simp add: filter_events_def)
  show ?thesis
    using g assms(2) b sh fe
    by (simp add: secure_process_request_def bind_exn_def blocked_response_def)
qed

theorem blocked_input_stops_pipeline_witness:
  "secure_process_request blocking_world full_config [] ''how do I hurt someone'' None =
     (Inr (JObj [(''status'', JStr ''blocked_by_guardrails''),
                 (''message'', JStr ''I'm sorry, but I cannot process this request as it violates our content policies.''),
                 (''blocked_reasons'', JList [JStr ''violence''])]),
      [ApplyGuardrail ''gr-1'' ''1'' ''<json>''])"
proof -
  have ag: "apply_guardrails blocking_world full_config [] (JStr ''how do I hurt someone'') =
    (JObj [(''is_blocked'', JBool True), (''filtered_input'', JStr ''how do I hurt someone''),
           (''blocked_reasons'', JList [JStr ''violence''])], [ApplyGuardrail ''gr-1'' ''1'' ''<json>''])"
    by (simp add: apply_guardrails_def guardrail_pass_def guardrail_try_def blocking_world_def
          quiet_world_def full_config_def)
  have h1: "py_get (fst (apply_guardrails blocking_world full_config [] (JStr ''how do I hurt someone'')))
              ''is_blocked'' (JBool False) = Inr (JBool True)"
    by (simp add: ag)
  have h2: "truthy (JBool True)" by simp
  have jd: "json_dumps blocking_world None v = ''<json>''" for v
    by (simp add: blocking_world_def quiet_world_def)
  have cf: "guardrail_id full_config = Some ''gr-1''" "guardrail_version full_config = Some ''1''"
    by (simp_all add: full_config_def)
  show ?thesis
    using blocked_input_stops_pipeline [OF h1 h2, of None]
    by (auto simp add: ag jd cf)
qed

text \<open>
  C4. If the guardrail id or version is absent (\<open>None\<close> or empty), both filter passes
  return not-blocked with the text unchanged and no reasons, without calling the filter.
  If the filter collaborator raises, the pass returns the same. In both situations the
  gate behaves as the router followed by writing the extracted text back: the filter
  contributes no exception, the only exceptions of the gate are the router's.
\<close>

theorem guardrails_fail_open:
  "(\<not> truthy (opt_str (guardrail_id cfg)) \<or> \<not> truthy (opt_str (guardrail_version cfg)) \<longrightarrow>
      apply_guardrails w cfg log text =
        (JObj [(''is_blocked'', JBool False), (''filtered_input'', text),
               (''blocked_reasons'', JList [])], log)
    \<and> apply_guardrails_to_output w cfg log text =
        (JObj [(''is_blocked'', JBool False), (''filtered_output'', text),
               (''blocked_reasons'', JList [])], log))
   \<and> (\<forall>gid gver e.
        guardrail_id cfg = Some gid \<and> guardrail_version cfg = Some gver \<and> gid \<noteq> [] \<and> gver \<noteq> []
        \<and> bedrock_apply_guardrail w log gid gver (json_dumps w None (JObj [(''input'', text)])) = Inl e \<longrightarrow>
      apply_guardrails w cfg log text =
        (JObj [(''is_blocked'', JBool False), (''filtered_input'', text),
               (''blocked_reasons'', JList [])],
         log @ [ApplyGuardrail gid gver (json_dumps w None (JObj [(''input'', text)]))]))
   \<and> (\<forall>gid gver e.
        guardrail_id cfg = Some gid \<and> guardrail_version cfg = Some gver \<and> gid \<noteq> [] \<and> gver \<noteq> []
        \<and> bedrock_apply_guardrail w log gid gver (json_dumps w None (JObj [(''output'', text)])) = Inl e \<longrightarrow>
      apply_guardrails_to_output w cfg log text =
        (JObj [(''is_blocked'', JBool False), (''filtered_output'', text),
               (''blocked_reasons'', JList [])],
         log @ [ApplyGuardrail gid gver (json_dumps w None (JObj [(''output'', text)]))]))
   \<and> ((\<not> truthy (opt_str (guardrail_id cfg)) \<or> \<not> truthy (opt_str (guardrail_version cfg))
         \<or> (\<forall>l gid gver body. \<exists>e. bedrock_apply_guardrail w l gid gver body = Inl e)) \<longrightarrow>
      secure_process_request w cfg log user_input session_id =
        (case process_request w cfg (log @ filter_events w cfg ''input'' (JStr user_input))
                user_input session_id of
           (Inl e, log2) \<Rightarrow> (Inl e, log2)
         | (Inr response, log2) \<Rightarrow>
             (Inr (update_response_text response (extract_response_text w response)),
              log2 @ filter_events w cfg ''output'' (extract_response_text w response))))"
proof -
  have pass: "guardrail_pass w cfg l direction field t =
                (pass_through field t, l @ filter_events w cfg direction t)"
    if "\<not> truthy (opt_str (guardrail_id cfg)) \<or> \<not> truthy (opt_str (guardrail_version cfg))
         \<or> (\<forall>l gid gver body. \<exists>e. bedrock_apply_guardrail w l gid gver body = Inl e)"
    for l direction field t
  proof -
    have "guardrail_try w l gid gver direction field t \<noteq> Inr r"
      if dn: "\<forall>l gid gver body. \<exists>e. bedrock_apply_guardrail w l gid gver body = Inl e" for gid gver r
    proof -
      obtain e where "bedrock_apply_guardrail w l gid gver (json_dumps w None (JObj [(direction, t)])) = Inl e"
        using dn by blast
      then show ?thesis by (simp add: guardrail_try_def)
    qed
    then show ?thesis
      using that unfolding guardrail_pass_def filter_events_def Let_def
      by (auto split: option.splits sum.splits)
  qed
  show ?thesis
    apply (intro conjI impI allI)
    subgoal by (auto simp: apply_guardrails_def guardrail_pass_def pass_through_def split: option.splits)
    subgoal by (auto simp: apply_guardrails_to_output_def guardrail_pass_def pass_through_def split: option.splits)
    subgoal by (auto simp: apply_guardrails_def guardrail_pass_def guardrail_try_def pass_through_def)
    subgoal by (auto simp: apply_guardrails_to_output_def guardrail_pass_def guardrail_try_def pass_through_def)
    subgoal premises prems
      using pass [OF prems]
      by (simp add: secure_process_request_def apply_guardrails_def apply_guardrails_to_output_def
          pass_through_def bind_exn_def Let_def split: prod.splits sum.splits)
    done
qed

lemma no_keyword_hello: "\<not> list_ex (\<lambda>keyword. py_in keyword (lower ''hello'')) emergency_keywords"
  by (simp add: emergency_keywords_def lower_def lower_char_def)

lemma quiet_router_hello:
  "process_request quiet_world full_config l ''hello'' None =
     (Inr (JObj [(''response'', JStr []), (''session_id'', JNull)]),
      l @ [InvokeAgent \<lparr>inputText = ''hello'', agentId = ''AGENT1'', agentAliasId = ''ALIAS1'',
                        sessionId = None\<rparr>])"
  by (simp add: process_request_def no_keyword_hello route_by_supervisor_def invoke_agent_def
        quiet_world_def full_config_def extract_routing_decision_def py_iter_def bind_exn_def
        extract_supervisor_message_def)

theorem guardrails_fail_open_witness:
  "apply_guardrails quiet_world unguarded_config [] (JStr ''hello'') =
     (JObj [(''is_blocked'', JBool False), (''filtered_input'', JStr ''hello''),
            (''blocked_reasons'', JList [])], [])
   \<and> apply_guardrails quiet_world full_config [] (JStr ''hello'') =
     (JObj [(''is_blocked'', JBool False), (''filtered_input'', JStr ''hello''),
            (''blocked_reasons'', JList [])], [ApplyGuardrail ''gr-1'' ''1'' ''<json>''])
   \<and> secure_process_request quiet_world full_config [] ''hello'' None =
     (Inr (JObj [(''response'', JStr []), (''session_id'', JNull)]),
      [ApplyGuardrail ''gr-1'' ''1'' ''<json>'',
       InvokeAgent \<lparr>inputText = ''hello'', agentId = ''AGENT1'', agentAliasId = ''ALIAS1'',
                    sessionId = None\<rparr>,
       ApplyGuardrail ''gr-1'' ''1'' ''<json>''])"
proof -
  have c1: "\<not> truthy (opt_str (guardrail_id unguarded_config))"
    by (simp add: unguarded_config_def full_config_def)
  have c2: "guardrail_id full_config = Some ''gr-1''" "guardrail_version full_config = Some ''1''"
    by (simp_all add: full_config_def)
  have dn: "bedrock_apply_guardrail quiet_world l gid gver body = Inl (OtherError ''guardrail endpoint unreachable'')"
    for l gid gver body by (simp add: quiet_world_def)
  have jd: "json_dumps quiet_world None v = ''<json>''" for v
    by (simp add: quiet_world_def)
  have fe: "filter_events quiet_world full_config d t = [ApplyGuardrail ''gr-1'' ''1'' ''<json>'']" for d t
    by (simp add: filter_events_def c2 jd)
  show ?thesis
    using guardrails_fail_open [of unguarded_config quiet_world "[]" "JStr ''hello''" "''hello''" None]
          guardrails_fail_open [of full_config quiet_world "[]" "JStr ''hello''" "''hello''" None]
    by (simp add: c1 c2 dn jd fe quiet_router_hello update_response_text_def
          extract_response_text_def)
qed

section \<open>What each handler adds to the trace\<close>

lemma py_in_iff: "py_in sub s \<longleftrightarrow> (\<exists>pre post. s = pre @ sub @ post)"
proof (induction s)
  case Nil
  then show ?case by auto
next
  case (Cons c cs)
  show ?case
  proof
    assume "py_in sub (c # cs)"
    then consider "prefix sub (c # cs)" | "py_in sub cs" by auto
    then show "\<exists>pre post. c # cs = pre @ sub @ post"
    proof cases
      case 1
      then obtain post where "c # cs = sub @ post" by (auto simp: prefix_def)
      then have "c # cs = [] @ sub @ post" by simp
      then show ?thesis by blast
    next
      case 2
      then obtain pre post where "cs = pre @ sub @ post" using Cons.IH by blast
      then have "c # cs = (c # pre) @ sub @ post" by simp
      then show ?thesis by blast
    qed
  next
    assume "\<exists>pre post. c # cs = pre @ sub @ post"
    then obtain pre post where e: "c # cs = pre @ sub @ post" by blast
    show "py_in sub (c # cs)"
    proof (cases pre)
      case Nil
      then have "prefix sub (c # cs)" using e by (simp add: prefix_def)
      then show ?thesis by simp
    next
      case (Cons p ps)
      then have "cs = ps @ sub @ post" using e by simp
      then have "py_in sub cs" using Cons.IH by blast
      then show ?thesis by simp
    qed
  qed
qed

lemma evaluate_emergency_try_log:
  "\<exists>ext. snd (evaluate_emergency_try w cfg log message) =
           log @ InvokeModel (model_id cfg) (emergency_prompt message) # ext"
  unfolding evaluate_emergency_try_def escalate_emergency_def Let_def
  by (auto split: sum.splits pyval.splits option.splits)

lemma evaluate_emergency_log:
  "\<exists>ext. snd (evaluate_emergency w cfg log message) =
           log @ InvokeModel (model_id cfg) (emergency_prompt message) # ext"
  using evaluate_emergency_try_log [of w cfg log message]
  unfolding evaluate_emergency_def
  by (auto split: prod.splits sum.splits)

lemma handle_emergency_request_log:
  "\<exists>ext. snd (handle_emergency_request w cfg log message) =
           log @ InvokeModel (model_id cfg) (emergency_prompt message) # ext"
  using evaluate_emergency_log [of w cfg log message]
  unfolding handle_emergency_request_def
  by (auto split: prod.splits sum.splits)

lemma bind_exn_prefix:
  "prefix log l1 \<Longrightarrow> (\<And>v. r = Inr v \<Longrightarrow> prefix log (snd (f v)))
     \<Longrightarrow> prefix log (snd (bind_exn r l1 f))"
  by (cases r) (auto simp: bind_exn_def)

lemma determine_intent_log:
  "snd (determine_intent w cfg log user_input) =
     log @ [InvokeModel (model_id cfg) (intent_prompt user_input)]"
  unfolding determine_intent_def bind_exn_def Let_def
  by (auto split: sum.splits pyval.splits)

lemma create_ticket_log: "prefix log (snd (create_ticket w log a b c d e f))"
  unfolding create_ticket_def create_ticket_body_def Let_def
  by (auto split: option.splits exn.splits)

lemma get_ticket_status_log: "prefix log (snd (get_ticket_status w log t))"
  unfolding get_ticket_status_def bind_exn_def Let_def
  by (auto split: sum.splits exn.splits)

lemma cancel_ticket_log:
  "snd (cancel_ticket w log t r) = log @ [UpdateItem (cancel_request (utcnow_isoformat w log) t r)]"
  unfolding cancel_ticket_def Let_def
  by (auto split: option.splits exn.splits)

lemma prefix_app_trans: "prefix (log @ ext) l \<Longrightarrow> prefix log l"
  using append_prefixD by blast

lemma ticketing_process_request_log:
  "prefix log (snd (ticketing_process_request w cfg log user_input))"
proof -
  let ?l1 = "log @ [InvokeModel (model_id cfg) (intent_prompt user_input)]"
  obtain r l where di: "determine_intent w cfg log user_input = (r, l)" by fastforce
  then have l: "l = ?l1" using determine_intent_log [of w cfg log user_input] by simp
  have c: "prefix log (snd (create_ticket w ?l1 a b c d e f))" for a b c d e f
    using create_ticket_log [of ?l1 w a b c d e f] by (rule prefix_app_trans)
  have g: "prefix log (snd (get_ticket_status w ?l1 t))" for t
    using get_ticket_status_log [of ?l1 w t] by (rule prefix_app_trans)
  have k: "prefix log (snd (cancel_ticket w ?l1 t r))" for t r
    by (simp add: cancel_ticket_log)
  have c': "prefix log (snd (case create_ticket w ?l1 a b c d e f of
                 (Inl e, log2) \<Rightarrow> (Inl e, log2) | (Inr ticket, log2) \<Rightarrow> (Inr (h ticket), log2)))"
    for a b c d e f h
    using c [of a b c d e f] by (auto split: prod.splits sum.splits)
  have g': "prefix log (snd (case get_ticket_status w ?l1 t of
                 (Inl e, log2) \<Rightarrow> (Inl e, log2) | (Inr ticket, log2) \<Rightarrow> (Inr (h ticket), log2)))"
    for t h
    using g [of t] by (auto split: prod.splits sum.splits)
  have k': "prefix log (snd (case cancel_ticket w ?l1 t r of
                 (Inl e, log2) \<Rightarrow> (Inl e, log2) | (Inr s, log2) \<Rightarrow> (Inr (h s), log2)))"
    for t r h
    using k [of t r] by (auto split: prod.splits sum.splits)
  show ?thesis
  proof (cases r)
    case (Inl e)
    then show ?thesis by (simp add: ticketing_process_request_def di l)
  next
    case (Inr intent)
    show ?thesis
      unfolding ticketing_process_request_def di l Inr
      apply (simp only: prod.case sum.case)
      apply (rule bind_exn_prefix, simp)
      apply (simp only: split: if_split)
      apply (intro conjI impI bind_exn_prefix c' g' k')
      apply (simp_all add: c' g' k')
      apply (intro impI bind_exn_prefix)
      apply (simp_all add: k')
      done
  qed
qed

lemma retrieve_loop_log:
  "\<exists>ext. snd (retrieve_loop w cfg qt m keys rel log) = log @ ext \<and> list_all is_store_read ext"
proof (induction keys arbitrary: rel log)
  case Nil
  then show ?case by simp
next
  case (Cons key keys)
  have step: "\<exists>ext. snd (retrieve_loop w cfg qt m keys rel' (log @ [GetObject (s3_bucket cfg) key]))
                  = log @ ext \<and> list_all is_store_read ext" for rel'
  proof -
    obtain ext where "snd (retrieve_loop w cfg qt m keys rel' (log @ [GetObject (s3_bucket cfg) key]))
       = (log @ [GetObject (s3_bucket cfg) key]) @ ext" "list_all is_store_read ext"
      using Cons.IH by blast
    then have "snd (retrieve_loop w cfg qt m keys rel' (log @ [GetObject (s3_bucket cfg) key]))
       = log @ (GetObject (s3_bucket cfg) key # ext) \<and> list_all is_store_read (GetObject (s3_bucket cfg) key # ext)"
      by simp
    then show ?thesis by blast
  qed
  have one: "\<exists>ext. log @ [GetObject (s3_bucket cfg) key] = log @ ext \<and> list_all is_store_read ext"
    by simp
  have zero: "\<exists>ext. log = log @ ext \<and> list_all is_store_read ext" by simp
  show ?case
    using step one zero Cons.IH [of rel log]
    by (simp add: Let_def split: sum.splits)
qed

lemma retrieve_relevant_documents_log:
  "\<exists>ext. snd (retrieve_relevant_documents w cfg log query m) = log @ ext \<and> list_all is_store_read ext"
proof -
  let ?l1 = "log @ [ListObjects (s3_bucket cfg) (s3_prefix cfg)]"
  have a: "\<exists>ext. ?l1 = log @ ext \<and> list_all is_store_read ext" by simp
  have b: "\<exists>ext. snd (retrieve_loop w cfg qt m keys [] ?l1) = log @ ext \<and> list_all is_store_read ext"
    for qt keys
  proof -
    obtain ext where "snd (retrieve_loop w cfg qt m keys [] ?l1) = ?l1 @ ext" "list_all is_store_read ext"
      using retrieve_loop_log by blast
    then have "snd (retrieve_loop w cfg qt m keys [] ?l1)
        = log @ (ListObjects (s3_bucket cfg) (s3_prefix cfg) # ext)
        \<and> list_all is_store_read (ListObjects (s3_bucket cfg) (s3_prefix cfg) # ext)" by simp
    then show ?thesis by blast
  qed
  have ece: "snd (except_client_error e l) = l" for e l
    by (simp add: except_client_error_def split: exn.splits)
  show ?thesis
  proof (cases "s3_list_objects_v2 w log (s3_bucket cfg) (s3_prefix cfg)")
    case (Inl e)
    then show ?thesis using a by (simp add: retrieve_relevant_documents_def ece)
  next
    case (Inr ks)
    show ?thesis
    proof (cases ks)
      case None
      then show ?thesis using a Inr by (simp add: retrieve_relevant_documents_def)
    next
      case (Some keys)
      obtain r l where rl: "retrieve_loop w cfg (set (py_split (lower query))) m keys [] ?l1 = (r, l)"
        by fastforce
      have "\<exists>ext. l = log @ ext \<and> list_all is_store_read ext"
        using b [of "set (py_split (lower query))" keys] rl by simp
      then show ?thesis using Inr Some rl
        by (cases r) (simp_all add: retrieve_relevant_documents_def ece)
    qed
  qed
qed

lemma answer_question_log: "prefix log (snd (answer_question w cfg log query))"
proof -
  obtain r l where rr: "retrieve_relevant_documents w cfg log query 3 = (r, l)" by fastforce
  then have "prefix log l" using retrieve_relevant_documents_log [of w cfg log query 3]
    by auto
  then have "prefix log (l @ ext)" for ext by (simp add: prefix_prefix)
  then show ?thesis using \<open>prefix log l\<close>
    unfolding answer_question_def rr Let_def
    by (auto split: sum.splits)
qed

section \<open>FAQ agent: refusal without a model call\<close>

lemma card_set_inter: "card (set xs \<inter> set ys) = length (remdups (filter (\<lambda>x. x \<in> set ys) xs))"
proof -
  have "set xs \<inter> set ys = set (filter (\<lambda>x. x \<in> set ys) xs)" by auto
  then show ?thesis by (simp add: length_remdups_card_conv)
qed

lemma split_lower_examples:
  "py_split (lower ''warranty'') = [''warranty'']"
  "py_split (lower ''return policy'') = [''return'', ''policy'']"
  "py_split (lower ''Our RETURN desk'') = [''our'', ''return'', ''desk'']"
  "py_split (lower ''return policy here'') = [''return'', ''policy'', ''here'']"
  "py_split (lower ''policy'') = [''policy'']"
  by code_simp+

lemma library_no_warranty:
  "retrieve_relevant_documents library_world full_config [] ''warranty'' 3 =
     (Inr [], [ListObjects (Some ''kb-bucket'') ''knowledge_base/'',
               GetObject (Some ''kb-bucket'') ''a.txt'',
               GetObject (Some ''kb-bucket'') ''c.md'',
               GetObject (Some ''kb-bucket'') ''d.json''])"
  by (simp add: retrieve_relevant_documents_def library_world_def quiet_world_def full_config_def
        split_lower_examples card_set_inter py_take_def sort_by_relevance_def suffix_def)

text \<open>
  C6. When retrieval returns the empty list, \<open>answer_question\<close> returns exactly the
  fixed refusal string with an empty list of sources, and the calls it made are those
  of retrieval, which are listings and document fetches only: the model is not invoked.
\<close>

theorem answer_question_refusal:
  assumes "retrieve_relevant_documents w cfg log query 3 = (Inr [], log1)"
  shows "answer_question w cfg log query =
           (Inr (JObj [(''answer'', JStr ''I couldn't find any relevant information in the knowledge base.''),
                       (''sources'', JList [])]), log1)
         \<and> (\<exists>ext. log1 = log @ ext \<and> list_all is_store_read ext)"
  using assms retrieve_relevant_documents_log [of w cfg log query 3]
  by (simp add: answer_question_def no_information_def)

theorem answer_question_refusal_witness:
  "answer_question library_world full_config [] ''warranty'' =
     (Inr (JObj [(''answer'', JStr ''I couldn't find any relevant information in the knowledge base.''),
                 (''sources'', JList [])]),
      [ListObjects (Some ''kb-bucket'') ''knowledge_base/'',
       GetObject (Some ''kb-bucket'') ''a.txt'',
       GetObject (Some ''kb-bucket'') ''c.md'',
       GetObject (Some ''kb-bucket'') ''d.json''])"
  using answer_question_refusal [OF library_no_warranty] by simp

section \<open>The router: emergency pre-check\<close>

lemma invoke_agent_cases:
  "invoke_agent w cfg log m sid = (Inl ids_missing, log)
   \<or> (\<exists>sr req. invoke_agent w cfg log m sid = (Inr sr, log @ [InvokeAgent req]))"
  unfolding invoke_agent_def Let_def
  by (auto split: option.splits sum.splits)

lemma route_by_supervisor_log:
  "snd (route_by_supervisor w cfg log ui sid) = log
   \<or> (\<exists>req ext. snd (route_by_supervisor w cfg log ui sid) = log @ InvokeAgent req # ext)"
proof -
  consider "invoke_agent w cfg log ui sid = (Inl ids_missing, log)"
    | sr req where "invoke_agent w cfg log ui sid = (Inr sr, log @ [InvokeAgent req])"
    using invoke_agent_cases by blast
  then show ?thesis
  proof cases
    case 1
    then show ?thesis by (simp add: route_by_supervisor_def)
  next
    case 2
    let ?l1 = "log @ [InvokeAgent req]"
    have h: "prefix ?l1 (snd (handle_emergency_request w cfg ?l1 ui))"
      using handle_emergency_request_log [of w cfg ?l1 ui] by (auto simp: prefix_def)
    have "prefix ?l1 (snd (route_by_supervisor w cfg log ui sid))"
      unfolding route_by_supervisor_def 2
      apply (simp only: prod.case sum.case)
      apply (intro bind_exn_prefix)
        apply simp
       apply simp
      apply (simp only: split: if_split)
      apply (intro conjI impI bind_exn_prefix ticketing_process_request_log answer_question_log h)
        apply simp_all
      done
    then obtain ext where "snd (route_by_supervisor w cfg log ui sid) = ?l1 @ ext"
      by (auto simp: prefix_def)
    then have "snd (route_by_supervisor w cfg log ui sid) = log @ InvokeAgent req # ext" by simp
    then show ?thesis by blast
  qed
qed

text \<open>
  C10. The pre-check of the router holds exactly when one of the seven keywords occurs
  in the lowercased input as a contiguous block of characters, inside a longer word or
  not. When it does, the first external call of the request is the model call of the
  emergency evaluator, so the evaluator is consulted before any supervisor call. When it
  does not, the request is the supervisor routing alone: its first external call, if it
  makes one, is the supervisor call, and the pre-check has not called the evaluator.
\<close>

theorem emergency_precheck_substring:
  "(list_ex (\<lambda>keyword. py_in keyword (lower user_input)) emergency_keywords
      \<longleftrightarrow> (\<exists>keyword \<in> set [''emergency'', ''accident'', ''injury'', ''fire'', ''urgent'', ''help'', ''danger''].
             \<exists>pre post. lower user_input = pre @ keyword @ post))
   \<and> ((\<exists>keyword \<in> set emergency_keywords. \<exists>pre post. lower user_input = pre @ keyword @ post) \<longrightarrow>
        (\<exists>ext. snd (process_request w cfg log user_input session_id) =
                 log @ InvokeModel (model_id cfg) (emergency_prompt user_input) # ext))
   \<and> (\<not> (\<exists>keyword \<in> set emergency_keywords. \<exists>pre post. lower user_input = pre @ keyword @ post) \<longrightarrow>
        process_request w cfg log user_input session_id =
          route_by_supervisor w cfg log user_input session_id
        \<and> (snd (process_request w cfg log user_input session_id) = log
           \<or> (\<exists>req ext. snd (process_request w cfg log user_input session_id) =
                          log @ InvokeAgent req # ext)))"
proof -
  have kw: "list_ex (\<lambda>keyword. py_in keyword (lower user_input)) emergency_keywords
      \<longleftrightarrow> (\<exists>keyword \<in> set emergency_keywords. \<exists>pre post. lower user_input = pre @ keyword @ post)"
    by (simp add: list_ex_iff py_in_iff)
  have first: "\<exists>ext. snd (process_request w cfg log user_input session_id) =
                 log @ InvokeModel (model_id cfg) (emergency_prompt user_input) # ext"
    if "list_ex (\<lambda>keyword. py_in keyword (lower user_input)) emergency_keywords"
  proof -
    obtain ev l1 where ee: "evaluate_emergency w cfg log user_input = (ev, l1)" by fastforce
    then obtain ext1 where l1: "l1 = log @ InvokeModel (model_id cfg) (emergency_prompt user_input) # ext1"
      using evaluate_emergency_log [of w cfg log user_input] by auto
    have ext: "\<exists>ext. l = log @ InvokeModel (model_id cfg) (emergency_prompt user_input) # ext"
      if "prefix l1 l" for l
      using that l1 by (auto simp: prefix_def)
    have a: "prefix l1 (snd (handle_emergency_request w cfg l1 user_input))"
      using handle_emergency_request_log [of w cfg l1 user_input] by (auto simp: prefix_def)
    have b: "prefix l1 (snd (route_by_supervisor w cfg l1 user_input session_id))"
      using route_by_supervisor_log [of w cfg l1 user_input session_id] by (auto simp: prefix_def)
    have "prefix l1 (snd (process_request w cfg log user_input session_id))"
      using that a b
      by (simp add: process_request_def ee split: sum.splits)
    then show ?thesis by (rule ext)
  qed
  have none: "process_request w cfg log user_input session_id =
          route_by_supervisor w cfg log user_input session_id"
    if "\<not> list_ex (\<lambda>keyword. py_in keyword (lower user_input)) emergency_keywords"
    using that by (simp add: process_request_def)
  show ?thesis
    using kw first none route_by_supervisor_log [of w cfg log user_input session_id]
    by (simp add: emergency_keywords_def)
qed

theorem emergency_precheck_substring_witness:
  "(\<exists>ext. snd (process_request quiet_world full_config [] ''Very helpful, thanks'' None) =
           [] @ InvokeModel (model_id full_config) (emergency_prompt ''Very helpful, thanks'') # ext)
   \<and> process_request quiet_world full_config [] ''hello'' None =
       route_by_supervisor quiet_world full_config [] ''hello'' None"
proof -
  have lw: "lower ''Very helpful, thanks'' = ''very helpful, thanks''" by code_simp
  have "lower ''Very helpful, thanks'' = ''very '' @ ''help'' @ ''ful, thanks''"
    by (simp add: lw)
  then have h1: "\<exists>keyword \<in> set emergency_keywords. \<exists>pre post.
                  lower ''Very helpful, thanks'' = pre @ keyword @ post"
    unfolding emergency_keywords_def by (metis list.set_intros)
  have h2: "\<not> (\<exists>keyword \<in> set emergency_keywords. \<exists>pre post. lower ''hello'' = pre @ keyword @ post)"
    using no_keyword_hello by (simp add: list_ex_iff py_in_iff)
  show ?thesis
    using emergency_precheck_substring [of "''Very helpful, thanks''" quiet_world full_config "[]" None]
          emergency_precheck_substring [of "''hello''" quiet_world full_config "[]" None]
          h1 h2
    by blast
qed

section \<open>The router: extracting the routing decision\<close>

lemma json_routing_none:
  "no_agent_object w c \<Longrightarrow> json_routing w (JStr c) = Inr None"
  unfolding no_agent_object_def json_routing_def py_contains_def Let_def
  by (auto split: sum.splits pyval.splits bool.splits)

lemma json_routing_some:
  assumes \<open>py_in ''{"agent":'' c\<close>
      and "0 \<le> py_find c ''{''" "py_find c ''{'' < py_rfind c ''}'' + 1"
      and "json_loads w (py_slice c (py_find c ''{'') (py_rfind c ''}'' + 1)) = Inr (JObj kvs)"
      and "''agent'' \<in> set (map fst kvs)"
  shows "json_routing w (JStr c) = Inr (Some (JObj kvs))"
  using assms unfolding json_routing_def py_contains_def Let_def by simp

lemma fragment_content:
  "fragment_text m = Some t \<Longrightarrow> py_get m ''content'' (JStr []) = Inr (JStr t)"
  unfolding fragment_text_def
  by (auto split: pyval.splits option.splits)

lemma routing_loop_keywords:
  assumes "\<forall>f \<in> set ms. \<exists>t. fragment_text f = Some t \<and> no_agent_object w t"
  shows "routing_loop w ms [(''agent'', JStr a)] =
           Inr (JObj [(''agent'', JStr (case List.map_filter (\<lambda>t. keyword_agent (lower t))
                                               (map (\<lambda>f. the (fragment_text f)) ms) of
                                          [] \<Rightarrow> a | b # bs \<Rightarrow> last (b # bs)))])"
  using assms
proof (induction ms arbitrary: a)
  case Nil
  then show ?case by (simp add: List.map_filter_simps)
next
  case (Cons f ms)
  then obtain t where t: "fragment_text f = Some t" "no_agent_object w t" by auto
  have rest: "\<forall>f \<in> set ms. \<exists>t. fragment_text f = Some t \<and> no_agent_object w t"
    using Cons.prems by simp
  show ?case
  proof (cases "keyword_agent (lower t)")
    case None
    then show ?thesis
      using Cons.IH [OF rest, of a] t
      by (simp add: fragment_content json_routing_none List.map_filter_simps)
  next
    case (Some b)
    then show ?thesis
      using Cons.IH [OF rest, of b] t
      by (simp add: fragment_content json_routing_none List.map_filter_simps split: list.splits)
  qed
qed

lemma routing_loop_structured:
  assumes "\<forall>f \<in> set pre. \<exists>t. fragment_text f = Some t \<and> no_agent_object w t"
      and "json_routing w (JStr c) = Inr (Some r)" and "fragment_text m = Some c"
  shows "routing_loop w (pre @ m # post) decision = Inr r"
  using assms
proof (induction pre arbitrary: decision)
  case Nil
  then show ?case by (simp add: fragment_content)
next
  case (Cons f pre)
  then obtain t where t: "fragment_text f = Some t" "no_agent_object w t" by auto
  show ?case
    using Cons t
    by (simp add: fragment_content json_routing_none split: option.splits)
qed

lemma keyword_agent_none:
  "keyword_agent s = None \<longleftrightarrow>
     (\<forall>k \<in> set [''ticket'', ''question'', ''faq'', ''knowledge base'', ''emergency'', ''urgent''].
        \<not> py_in k s)"
proof -
  have "py_in ''create ticket'' s \<Longrightarrow> py_in ''ticket'' s"
  proof -
    assume "py_in ''create ticket'' s"
    then obtain pre post where "s = pre @ ''create ticket'' @ post" by (auto simp: py_in_iff)
    then have "s = (pre @ ''create '') @ ''ticket'' @ post" by simp
    then show ?thesis unfolding py_in_iff by blast
  qed
  moreover have "py_in ''cancel ticket'' s \<Longrightarrow> py_in ''ticket'' s"
  proof -
    assume "py_in ''cancel ticket'' s"
    then obtain pre post where "s = pre @ ''cancel ticket'' @ post" by (auto simp: py_in_iff)
    then have "s = (pre @ ''cancel '') @ ''ticket'' @ post" by simp
    then show ?thesis unfolding py_in_iff by blast
  qed
  ultimately show ?thesis by (auto simp: keyword_agent_def)
qed

text \<open>
  C9, as the claim states it, fails on what is passed through: the claim says that the
  router returns the supervisor's own reply text. \<open>_extract_supervisor_message\<close> takes
  the main message of the reply, \<open>messages[0]\<close>: of a reply in two fragments, neither
  with a structured object nor a keyword, the router returns the first fragment only.
\<close>

theorem passthrough_first_fragment_counterexample:
  "process_request routing_world full_config [] ''hi'' None =
     (Inr (JObj [(''response'', JStr ''Your order''), (''session_id'', JStr ''sess-1'')]),
      [InvokeAgent \<lparr>inputText = ''hi'', agentId = ''AGENT1'', agentAliasId = ''ALIAS1'',
                    sessionId = None\<rparr>])
   \<and> reply_text [JObj [(''content'', JStr ''Your order'')],
                  JObj [(''content'', JStr '' ships on Monday.'')]] = ''Your order ships on Monday.''
   \<and> fst (process_request routing_world full_config [] ''hi'' None) \<noteq>
       Inr (JObj [(''response'',
                   JStr (reply_text [JObj [(''content'', JStr ''Your order'')],
                                     JObj [(''content'', JStr '' ships on Monday.'')]])),
                  (''session_id'', JStr ''sess-1'')])"
  by code_simp

text \<open>
  C9, amended. For a supervisor reply with the fragments \<open>ms\<close>: (1) the first fragment
  that holds a structured object with an \<open>agent\<close> key decides at once, whatever keywords
  the fragments before it matched and whatever follows; (2) when no fragment holds such
  an object, the keyword rules are applied fragment by fragment and the last fragment
  that matches a keyword group gives the agent; (3) when moreover no fragment contains
  any of the keywords, the decision is \<open>supervisor\<close> and the router returns the text of
  the first fragment of the reply (empty when there is none) with the session identifier
  of the reply, both from the supervisor routing and from \<open>process_request\<close> on an input
  without emergency keyword.
\<close>

theorem routing_decision_rules:
  assumes "py_get supervisor_response ''messages'' (JList []) = Inr (JList ms)"
  shows \<open>(\<forall>pre m post c kvs.
            ms = pre @ m # post
          \<and> (\<forall>f \<in> set pre. \<exists>t. fragment_text f = Some t \<and> no_agent_object w t)
          \<and> fragment_text m = Some c \<and> py_in ''{"agent":'' c
          \<and> 0 \<le> py_find c ''{'' \<and> py_find c ''{'' < py_rfind c ''}'' + 1
          \<and> json_loads w (py_slice c (py_find c ''{'') (py_rfind c ''}'' + 1)) = Inr (JObj kvs)
          \<and> ''agent'' \<in> set (map fst kvs) \<longrightarrow>
          extract_routing_decision w supervisor_response = Inr (JObj kvs))
       \<and> ((\<forall>f \<in> set ms. \<exists>t. fragment_text f = Some t \<and> no_agent_object w t) \<longrightarrow>
          extract_routing_decision w supervisor_response =
            Inr (JObj [(''agent'', JStr (last_matching_agent (map (\<lambda>f. the (fragment_text f)) ms)))]))
       \<and> ((\<forall>f \<in> set ms. \<exists>t. fragment_text f = Some t \<and> no_agent_object w t
              \<and> (\<forall>k \<in> set [''ticket'', ''question'', ''faq'', ''knowledge base'', ''emergency'', ''urgent''].
                    \<not> py_in k (lower t))) \<longrightarrow>
          extract_routing_decision w supervisor_response = Inr (JObj [(''agent'', JStr ''supervisor'')])
          \<and> (\<forall>cfg log user_input session_id log1 s.
                 invoke_agent w cfg log user_input session_id = (Inr supervisor_response, log1)
               \<and> py_get supervisor_response ''sessionId'' JNull = Inr s \<longrightarrow>
                 route_by_supervisor w cfg log user_input session_id =
                   (Inr (JObj [(''response'', JStr (first_text ms)), (''session_id'', s)]), log1)
               \<and> (\<not> list_ex (\<lambda>keyword. py_in keyword (lower user_input)) emergency_keywords \<longrightarrow>
                    process_request w cfg log user_input session_id =
                      (Inr (JObj [(''response'', JStr (first_text ms)), (''session_id'', s)]), log1))))\<close>
proof -
  have erd: "extract_routing_decision w supervisor_response =
               routing_loop w ms [(''agent'', JStr ''supervisor'')]"
    using assms by (simp add: extract_routing_decision_def py_iter_def)
  have a: "extract_routing_decision w supervisor_response = Inr (JObj kvs)"
    if "ms = pre @ m # post"
       "\<forall>f \<in> set pre. \<exists>t. fragment_text f = Some t \<and> no_agent_object w t"
       "fragment_text m = Some c" \<open>py_in ''{"agent":'' c\<close>
       "0 \<le> py_find c ''{''" "py_find c ''{'' < py_rfind c ''}'' + 1"
       "json_loads w (py_slice c (py_find c ''{'') (py_rfind c ''}'' + 1)) = Inr (JObj kvs)"
       "''agent'' \<in> set (map fst kvs)"
    for pre m post c kvs
    using routing_loop_structured [OF that(2) json_routing_some [OF that(4-8)] that(3)]
    by (simp add: erd that(1))
  have b: "extract_routing_decision w supervisor_response =
            Inr (JObj [(''agent'', JStr (last_matching_agent (map (\<lambda>f. the (fragment_text f)) ms)))])"
    if "\<forall>f \<in> set ms. \<exists>t. fragment_text f = Some t \<and> no_agent_object w t"
    using routing_loop_keywords [OF that, of "''supervisor''"]
    by (simp add: erd last_matching_agent_def split: list.splits)
  have c: "extract_routing_decision w supervisor_response = Inr (JObj [(''agent'', JStr ''supervisor'')])"
    if h: "\<forall>f \<in> set ms. \<exists>t. fragment_text f = Some t \<and> no_agent_object w t
              \<and> (\<forall>k \<in> set [''ticket'', ''question'', ''faq'', ''knowledge base'', ''emergency'', ''urgent''].
                    \<not> py_in k (lower t))"
  proof -
    have n: "\<forall>f \<in> set ms. \<exists>t. fragment_text f = Some t \<and> no_agent_object w t"
      using h by blast
    have "keyword_agent (lower (the (fragment_text f))) = None" if "f \<in> set ms" for f
    proof -
      from h that have "\<exists>t. fragment_text f = Some t \<and> no_agent_object w t
              \<and> (\<forall>k \<in> set [''ticket'', ''question'', ''faq'', ''knowledge base'', ''emergency'', ''urgent''].
                    \<not> py_in k (lower t))" by (rule bspec)
      then obtain t where ft: "fragment_text f = Some t"
        and nk: "\<forall>k \<in> set [''ticket'', ''question'', ''faq'', ''knowledge base'', ''emergency'', ''urgent''].
            \<not> py_in k (lower t)"
        by (elim exE conjE)
      from nk have "keyword_agent (lower t) = None" by (rule keyword_agent_none [THEN iffD2])
      then show ?thesis by (simp only: ft option.sel)
    qed
    then have "List.map_filter (\<lambda>t. keyword_agent (lower t)) (map (\<lambda>f. the (fragment_text f)) ms) = []"
      by (induction ms) (simp_all add: List.map_filter_simps)
    then show ?thesis using b [OF n] by (simp add: last_matching_agent_def)
  qed
  have esm: "extract_supervisor_message supervisor_response = Inr (JStr (first_text ms))"
    if "\<forall>f \<in> set ms. \<exists>t. fragment_text f = Some t"
    using assms that
    by (cases ms) (auto simp: extract_supervisor_message_def first_text_def py_index0_def
                     fragment_content)
  have d: "route_by_supervisor w cfg log user_input session_id =
             (Inr (JObj [(''response'', JStr (first_text ms)), (''session_id'', s)]), log1)"
    if h: "\<forall>f \<in> set ms. \<exists>t. fragment_text f = Some t \<and> no_agent_object w t
              \<and> (\<forall>k \<in> set [''ticket'', ''question'', ''faq'', ''knowledge base'', ''emergency'', ''urgent''].
                    \<not> py_in k (lower t))"
       and ia: "invoke_agent w cfg log user_input session_id = (Inr supervisor_response, log1)"
       and sid: "py_get supervisor_response ''sessionId'' JNull = Inr s"
    for cfg log user_input session_id log1 s
  proof -
    have "\<forall>f \<in> set ms. \<exists>t. fragment_text f = Some t" using h by blast
    then show ?thesis
      using c [OF h] ia sid esm
      by (simp add: route_by_supervisor_def bind_exn_def)
  qed
  have A: \<open>\<forall>pre m post c kvs.
            ms = pre @ m # post
          \<and> (\<forall>f \<in> set pre. \<exists>t. fragment_text f = Some t \<and> no_agent_object w t)
          \<and> fragment_text m = Some c \<and> py_in ''{"agent":'' c
          \<and> 0 \<le> py_find c ''{'' \<and> py_find c ''{'' < py_rfind c ''}'' + 1
          \<and> json_loads w (py_slice c (py_find c ''{'') (py_rfind c ''}'' + 1)) = Inr (JObj kvs)
          \<and> ''agent'' \<in> set (map fst kvs) \<longrightarrow>
          extract_routing_decision w supervisor_response = Inr (JObj kvs)\<close>
  proof (intro allI impI, elim conjE)
    fix pre m post c kvs
    assume "ms = pre @ m # post"
       "\<forall>f \<in> set pre. \<exists>t. fragment_text f = Some t \<and> no_agent_object w t"
       "fragment_text m = Some c" \<open>py_in ''{"agent":'' c\<close>
       "0 \<le> py_find c ''{''" "py_find c ''{'' < py_rfind c ''}'' + 1"
       "json_loads w (py_slice c (py_find c ''{'') (py_rfind c ''}'' + 1)) = Inr (JObj kvs)"
       "''agent'' \<in> set (map fst kvs)"
    then show "extract_routing_decision w supervisor_response = Inr (JObj kvs)" by (rule a)
  qed
  have D: "route_by_supervisor w cfg log user_input session_id =
                   (Inr (JObj [(''response'', JStr (first_text ms)), (''session_id'', s)]), log1)
               \<and> (\<not> list_ex (\<lambda>keyword. py_in keyword (lower user_input)) emergency_keywords \<longrightarrow>
                    process_request w cfg log user_input session_id =
                      (Inr (JObj [(''response'', JStr (first_text ms)), (''session_id'', s)]), log1))"
    if "\<forall>f \<in> set ms. \<exists>t. fragment_text f = Some t \<and> no_agent_object w t
              \<and> (\<forall>k \<in> set [''ticket'', ''question'', ''faq'', ''knowledge base'', ''emergency'', ''urgent''].
                    \<not> py_in k (lower t))"
       "invoke_agent w cfg log user_input session_id = (Inr supervisor_response, log1)
               \<and> py_get supervisor_response ''sessionId'' JNull = Inr s"
    for cfg log user_input session_id log1 s
  proof -
    have r: "route_by_supervisor w cfg log user_input session_id =
                   (Inr (JObj [(''response'', JStr (first_text ms)), (''session_id'', s)]), log1)"
      using d [OF that(1)] that(2) by blast
    then show ?thesis by (simp add: process_request_def)
  qed
  show ?thesis
    apply (intro conjI)
      apply (rule A)
     apply (intro impI, erule b)
    apply (intro impI conjI allI)
      apply (erule c)
     apply (drule (1) D, erule conjunct1)
    apply (drule (1) D, erule conjunct2 [THEN mp], assumption)
    done
qed

lemma routing_examples:
  \<open>no_agent_object routing_world ''please open a ticket''\<close>
  \<open>no_agent_object routing_world ''open a ticket''\<close>
  \<open>no_agent_object routing_world ''a question''\<close>
  \<open>no_agent_object routing_world ''bye''\<close>
  \<open>no_agent_object routing_world ''Your order''\<close>
  \<open>no_agent_object routing_world '' ships on Monday.''\<close>
  \<open>py_in ''{"agent":'' ''route {"agent": "faq"} now''\<close>
  \<open>py_find ''route {"agent": "faq"} now'' ''{'' = 6\<close>
  \<open>py_rfind ''route {"agent": "faq"} now'' ''}'' = 21\<close>
  \<open>py_slice ''route {"agent": "faq"} now'' 6 22 = ''{"agent": "faq"}''\<close>
  \<open>last_matching_agent [''open a ticket'', ''a question'', ''bye''] = ''faq''\<close>
  \<open>\<forall>k \<in> set [''ticket'', ''question'', ''faq'', ''knowledge base'', ''emergency'', ''urgent''].
      \<not> py_in k (lower ''Your order'')\<close>
  \<open>\<forall>k \<in> set [''ticket'', ''question'', ''faq'', ''knowledge base'', ''emergency'', ''urgent''].
      \<not> py_in k (lower '' ships on Monday.'')\<close>
  \<open>\<not> list_ex (\<lambda>keyword. py_in keyword (lower ''hi'')) emergency_keywords\<close>
  by (code_simp+)

theorem routing_decision_rules_witness:
  \<open>extract_routing_decision routing_world
      (JObj [(''messages'', JList [JObj [(''content'', JStr ''please open a ticket'')],
                                   JObj [(''content'', JStr ''route {"agent": "faq"} now'')],
                                   JObj [(''content'', JStr ''urgent'')]])])
     = Inr (JObj [(''agent'', JStr ''faq'')])
   \<and> extract_routing_decision routing_world
      (JObj [(''messages'', JList [JObj [(''content'', JStr ''open a ticket'')],
                                   JObj [(''content'', JStr ''a question'')],
                                   JObj [(''content'', JStr ''bye'')]])])
     = Inr (JObj [(''agent'', JStr ''faq'')])
   \<and> process_request routing_world full_config [] ''hi'' None =
       (Inr (JObj [(''response'', JStr ''Your order''), (''session_id'', JStr ''sess-1'')]),
        [InvokeAgent \<lparr>inputText = ''hi'', agentId = ''AGENT1'', agentAliasId = ''ALIAS1'',
                      sessionId = None\<rparr>])\<close>
proof -
  let ?f1 = "JObj [(''content'', JStr ''please open a ticket'')]"
  let ?f2 = \<open>JObj [(''content'', JStr ''route {"agent": "faq"} now'')]\<close>
  let ?f3 = "JObj [(''content'', JStr ''urgent'')]"
  let ?sr1 = "JObj [(''messages'', JList [?f1, ?f2, ?f3])]"
  have m1: "py_get ?sr1 ''messages'' (JList []) = Inr (JList [?f1, ?f2, ?f3])" by simp
  have jl: \<open>json_loads routing_world ''{"agent": "faq"}'' = Inr (JObj [(''agent'', JStr ''faq'')])\<close>
    by (simp add: routing_world_def quiet_world_def)
  have p1: "extract_routing_decision routing_world ?sr1 = Inr (JObj [(''agent'', JStr ''faq'')])"
    using routing_decision_rules [OF m1, of routing_world, THEN conjunct1, rule_format,
            of "[?f1]" ?f2 "[?f3]" \<open>''route {"agent": "faq"} now''\<close> "[(''agent'', JStr ''faq'')]"]
    by (simp add: fragment_text_def routing_examples jl)
  let ?g1 = "JObj [(''content'', JStr ''open a ticket'')]"
  let ?g2 = "JObj [(''content'', JStr ''a question'')]"
  let ?g3 = "JObj [(''content'', JStr ''bye'')]"
  let ?sr2 = "JObj [(''messages'', JList [?g1, ?g2, ?g3])]"
  have m2: "py_get ?sr2 ''messages'' (JList []) = Inr (JList [?g1, ?g2, ?g3])" by simp
  have p2: "extract_routing_decision routing_world ?sr2 = Inr (JObj [(''agent'', JStr ''faq'')])"
    using routing_decision_rules [OF m2, of routing_world, THEN conjunct2, THEN conjunct1]
    by (simp add: fragment_text_def routing_examples)
  let ?h1 = "JObj [(''content'', JStr ''Your order'')]"
  let ?h2 = "JObj [(''content'', JStr '' ships on Monday.'')]"
  let ?sr3 = "JObj [(''messages'', JList [?h1, ?h2]), (''sessionId'', JStr ''sess-1'')]"
  let ?req = "\<lparr>inputText = ''hi'', agentId = ''AGENT1'', agentAliasId = ''ALIAS1'', sessionId = None\<rparr>"
  have m3: "py_get ?sr3 ''messages'' (JList []) = Inr (JList [?h1, ?h2])" by simp
  have ia: "invoke_agent routing_world full_config [] ''hi'' None = (Inr ?sr3, [InvokeAgent ?req])"
    by (simp add: invoke_agent_def routing_world_def quiet_world_def full_config_def)
  have s3: "py_get ?sr3 ''sessionId'' JNull = Inr (JStr ''sess-1'')" by simp
  have h3: "\<forall>f \<in> set [?h1, ?h2]. \<exists>t. fragment_text f = Some t \<and> no_agent_object routing_world t
              \<and> (\<forall>k \<in> set [''ticket'', ''question'', ''faq'', ''knowledge base'', ''emergency'', ''urgent''].
                    \<not> py_in k (lower t))"
    using routing_examples by (simp add: fragment_text_def)
  have nk: "\<not> list_ex (\<lambda>keyword. py_in keyword (lower ''hi'')) emergency_keywords"
    by code_simp
  have p3: "process_request routing_world full_config [] ''hi'' None =
       (Inr (JObj [(''response'', JStr ''Your order''), (''session_id'', JStr ''sess-1'')]),
        [InvokeAgent ?req])"
    using routing_decision_rules [OF m3, of routing_world, THEN conjunct2, THEN conjunct2,
            THEN mp, OF h3, THEN conjunct2, rule_format, of full_config "[]" "''hi''" None
              "[InvokeAgent ?req]" "JStr ''sess-1''", OF conjI [OF ia s3],
            THEN conjunct2, THEN mp, OF nk]
    by (simp add: fragment_text_def first_text_def)
  show ?thesis using p1 p2 p3 by simp
qed

section \<open>FAQ agent: retrieval computes the specified ranking\<close>

lemma retrieve_loop_spec:
  assumes "\<forall>l k. k \<in> set keys \<and> has_doc_extension k \<longrightarrow>
             s3_get_object w l (s3_bucket cfg) k = Inr (store k)"
  shows "retrieve_loop w cfg (set (py_split (lower query))) m keys rel log =
           (Inr (rel @ map (match_of store query)
                         (take (nat m - length rel) (filter (is_candidate store query) keys))),
            log @ map (GetObject (s3_bucket cfg))
                    (filter has_doc_extension
                       (scanned (is_candidate store query) (nat m - length rel) keys)))"
  using assms
proof (induction keys arbitrary: rel log)
  case Nil
  then show ?case by (cases "nat m - length rel") simp_all
next
  case (Cons k ks)
  have get: "s3_get_object w l (s3_bucket cfg) k = Inr (store k)" if "has_doc_extension k" for l
    using Cons.prems that by simp
  have rest: "\<forall>l k. k \<in> set ks \<and> has_doc_extension k \<longrightarrow>
                s3_get_object w l (s3_bucket cfg) k = Inr (store k)"
    using Cons.prems by simp
  note IH = Cons.IH [OF rest]
  show ?case
  proof (cases "m \<le> int (length rel)")
    case True
    then have "nat m - length rel = 0" by simp
    then show ?thesis using True by simp
  next
    case False
    then obtain j where j: "nat m - length rel = Suc j"
      by (cases "nat m - length rel") auto
    show ?thesis
    proof (cases "has_doc_extension k")
      case noext: False
      then have nc: "\<not> is_candidate store query k" by (simp add: is_candidate_def)
      have "\<not> suffix ''.txt'' k \<and> \<not> suffix ''.md'' k \<and> \<not> suffix ''.json'' k"
        using noext by (simp add: has_doc_extension_def)
      then show ?thesis
        using False j nc noext IH [of rel log] by simp
    next
      case ext: True
      then have e: "(\<not> suffix ''.txt'' k \<and> \<not> suffix ''.md'' k \<and> \<not> suffix ''.json'' k) = False"
        by (auto simp add: has_doc_extension_def)
      show ?thesis
      proof (cases "0 < term_overlap query (store k)")
        case pos: True
        then have c: "is_candidate store query k" using ext by (simp add: is_candidate_def)
        have j': "nat m - length (rel @ [match_of store query k]) = j" using j by simp
        show ?thesis
          using False pos c ext j get [OF ext]
                IH [of "rel @ [match_of store query k]" "log @ [GetObject (s3_bucket cfg) k]"]
          by (simp add: e Let_def term_overlap_def [symmetric] match_of_def [symmetric] j'
                del: length_append)
      next
        case zero: False
        then have nc: "\<not> is_candidate store query k" by (simp add: is_candidate_def)
        show ?thesis
          using False zero nc ext j get [OF ext] IH [of rel "log @ [GetObject (s3_bucket cfg) k]"]
          by (simp add: e Let_def term_overlap_def [symmetric])
      qed
    qed
  qed
qed

lemma scanned_prefix: "prefix (scanned cand n keys) keys"
  by (induction cand n keys rule: scanned.induct) simp_all

lemma scanned_candidates: "filter cand (scanned cand n keys) = take n (filter cand keys)"
  by (induction cand n keys rule: scanned.induct) (auto split: if_splits)

lemma scanned_stops:
  "scanned cand n keys = keys
   \<or> (length (filter cand (scanned cand n keys)) = n
      \<and> (n = 0 \<or> (scanned cand n keys \<noteq> [] \<and> cand (last (scanned cand n keys)))))"
proof (induction cand n keys rule: scanned.induct)
  case (1 cand keys)
  then show ?case by simp
next
  case (2 cand n)
  then show ?case by simp
next
  case (3 cand n k ks)
  show ?case
  proof (cases "cand k")
    case True
    then show ?thesis using 3 by (cases n) auto
  next
    case False
    then show ?thesis using 3 by auto
  qed
qed

lemma sort_by_relevance_sorted:
  "sorted_wrt (\<lambda>a b. doc_relevance b \<le> doc_relevance a) (sort_by_relevance docs)"
proof -
  have "sorted (map (\<lambda>d. - int (doc_relevance d)) (sort_by_relevance docs))"
    unfolding sort_by_relevance_def by (rule sorted_sort_key)
  then show ?thesis by (simp add: sorted_map)
qed

lemma sort_by_relevance_stable:
  "filter (\<lambda>d. doc_relevance d = r) (sort_by_relevance docs) = filter (\<lambda>d. doc_relevance d = r) docs"
proof -
  have "filter (\<lambda>d. - int (doc_relevance d) = - int r) (sort_by_relevance docs)
        = filter (\<lambda>d. - int (doc_relevance d) = - int r) docs"
    unfolding sort_by_relevance_def by (rule sort_key_stable)
  then show ?thesis by simp
qed

lemma collected_length: "int (length (collected store query max_docs keys)) \<le> max 0 max_docs"
  by (simp add: collected_def)

lemma spec_retrieve_eq:
  "spec_retrieve store query max_docs keys = sort_by_relevance (collected store query max_docs keys)"
proof -
  have "length (sort_by_relevance (collected store query max_docs keys)) \<le> nat max_docs"
    by (simp add: sort_by_relevance_def collected_def)
  then show ?thesis by (simp add: spec_retrieve_def)
qed

lemma py_take_collected:
  "py_take max_docs (sort_by_relevance (collected store query max_docs keys))
     = spec_retrieve store query max_docs keys"
proof (cases "0 \<le> max_docs")
  case True
  then show ?thesis by (simp add: py_take_def spec_retrieve_def)
next
  case False
  then have "collected store query max_docs keys = []" by (simp add: collected_def)
  then show ?thesis by (simp add: py_take_def spec_retrieve_def sort_by_relevance_def)
qed

text \<open>
  C7. For a fixed store listing (the listing always yields \<open>keys\<close>, a document key
  always yields the same body) retrieval returns \<open>spec_retrieve\<close>: every returned
  document has one of the extensions .txt, .md, .json, its relevance is the size of the
  intersection of the lowercase whitespace-tokenised query terms and document terms, and
  that is positive; only the first \<open>max_docs\<close> such documents of the listing are
  collected, and the documents fetched are exactly those with an extension in the part
  of the listing scanned up to the \<open>max_docs\<close>-th candidate; the result has at most
  \<open>max_docs\<close> entries (none when \<open>max_docs\<close> is not positive), is sorted by
  descending relevance, and documents of equal relevance keep their listing order.
  \<open>answer_question\<close> calls retrieval with \<open>max_docs = 3\<close>.
\<close>

theorem retrieval_ranking:
  assumes "\<forall>l. s3_list_objects_v2 w l (s3_bucket cfg) (s3_prefix cfg) = Inr (Some keys)"
      and "\<forall>l k. k \<in> set keys \<and> has_doc_extension k \<longrightarrow>
             s3_get_object w l (s3_bucket cfg) k = Inr (store k)"
  shows "retrieve_relevant_documents w cfg log query max_docs =
           (Inr (spec_retrieve store query max_docs keys),
            log @ ListObjects (s3_bucket cfg) (s3_prefix cfg) #
              map (GetObject (s3_bucket cfg))
                (filter has_doc_extension
                   (scanned (is_candidate store query) (nat max_docs) keys)))
       \<and> int (length (spec_retrieve store query max_docs keys)) \<le> max 0 max_docs
       \<and> sorted_wrt (\<lambda>a b. doc_relevance b \<le> doc_relevance a)
            (spec_retrieve store query max_docs keys)
       \<and> (\<forall>r. filter (\<lambda>d. doc_relevance d = r) (spec_retrieve store query max_docs keys)
              = filter (\<lambda>d. doc_relevance d = r) (collected store query max_docs keys))
       \<and> (\<forall>d \<in> set (spec_retrieve store query max_docs keys).
             doc_relevance d = card (set (py_split (lower query)) \<inter> set (py_split (lower (doc_content d))))
           \<and> 0 < doc_relevance d
           \<and> doc_source d \<in> set keys
           \<and> doc_content d = store (doc_source d)
           \<and> (suffix ''.txt'' (doc_source d) \<or> suffix ''.md'' (doc_source d)
                \<or> suffix ''.json'' (doc_source d)))
       \<and> prefix (scanned (is_candidate store query) (nat max_docs) keys) keys
       \<and> filter (is_candidate store query) (scanned (is_candidate store query) (nat max_docs) keys)
            = take (nat max_docs) (filter (is_candidate store query) keys)
       \<and> (scanned (is_candidate store query) (nat max_docs) keys = keys
          \<or> (length (filter (is_candidate store query)
                        (scanned (is_candidate store query) (nat max_docs) keys)) = nat max_docs
             \<and> (nat max_docs = 0
                \<or> (scanned (is_candidate store query) (nat max_docs) keys \<noteq> []
                   \<and> is_candidate store query
                        (last (scanned (is_candidate store query) (nat max_docs) keys))))))"
proof -
  let ?l1 = "log @ [ListObjects (s3_bucket cfg) (s3_prefix cfg)]"
  have loop: "retrieve_loop w cfg (set (py_split (lower query))) max_docs keys [] ?l1 =
           (Inr (collected store query max_docs keys),
            ?l1 @ map (GetObject (s3_bucket cfg))
                    (filter has_doc_extension
                       (scanned (is_candidate store query) (nat max_docs) keys)))"
    using retrieve_loop_spec [OF assms(2), of query max_docs "[]" ?l1]
    by (simp add: collected_def)
  have p1: "retrieve_relevant_documents w cfg log query max_docs =
           (Inr (spec_retrieve store query max_docs keys),
            log @ ListObjects (s3_bucket cfg) (s3_prefix cfg) #
              map (GetObject (s3_bucket cfg))
                (filter has_doc_extension
                   (scanned (is_candidate store query) (nat max_docs) keys)))"
    using assms(1) loop
    by (simp add: retrieve_relevant_documents_def py_take_collected)
  have p2: "int (length (spec_retrieve store query max_docs keys)) \<le> max 0 max_docs"
    using collected_length [of store query max_docs keys]
    by (simp add: spec_retrieve_eq sort_by_relevance_def)
  have p3: "sorted_wrt (\<lambda>a b. doc_relevance b \<le> doc_relevance a)
            (spec_retrieve store query max_docs keys)"
    by (simp add: spec_retrieve_eq sort_by_relevance_sorted)
  have p4: "\<forall>r. filter (\<lambda>d. doc_relevance d = r) (spec_retrieve store query max_docs keys)
              = filter (\<lambda>d. doc_relevance d = r) (collected store query max_docs keys)"
    by (simp add: spec_retrieve_eq sort_by_relevance_stable)
  have p5: "doc_relevance d = card (set (py_split (lower query)) \<inter> set (py_split (lower (doc_content d))))
           \<and> 0 < doc_relevance d
           \<and> doc_source d \<in> set keys
           \<and> doc_content d = store (doc_source d)
           \<and> (suffix ''.txt'' (doc_source d) \<or> suffix ''.md'' (doc_source d)
                \<or> suffix ''.json'' (doc_source d))"
    if "d \<in> set (spec_retrieve store query max_docs keys)" for d
  proof -
    have "d \<in> set (collected store query max_docs keys)"
      using that by (simp add: spec_retrieve_eq sort_by_relevance_def)
    then obtain k where k: "d = match_of store query k"
        "k \<in> set (take (nat max_docs) (filter (is_candidate store query) keys))"
      by (auto simp: collected_def)
    then have "k \<in> set (filter (is_candidate store query) keys)" by (meson in_set_takeD)
    then have "k \<in> set keys" "is_candidate store query k" by simp_all
    then show ?thesis
      using k(1)
      by (simp add: match_of_def is_candidate_def has_doc_extension_def term_overlap_def)
  qed
  show ?thesis
    using p1 p2 p3 p4 p5 scanned_prefix [of "is_candidate store query" "nat max_docs" keys]
          scanned_candidates [of "is_candidate store query" "nat max_docs" keys]
          scanned_stops [of "is_candidate store query" "nat max_docs" keys]
    by (intro conjI ballI) blast+
qed

lemma library_examples:
  "spec_retrieve library_store ''return policy'' 2 [''a.txt'', ''b.png'', ''c.md'', ''d.json''] =
     [\<lparr>doc_content = ''return policy here'', doc_source = ''c.md'', doc_relevance = 2\<rparr>,
      \<lparr>doc_content = ''Our RETURN desk'', doc_source = ''a.txt'', doc_relevance = 1\<rparr>]"
  "filter has_doc_extension
     (scanned (is_candidate library_store ''return policy'') 2
        [''a.txt'', ''b.png'', ''c.md'', ''d.json'']) = [''a.txt'', ''c.md'']"
  "spec_retrieve library_store ''Return Policy'' 3 [''a.txt'', ''b.png'', ''c.md'', ''d.json''] =
     [\<lparr>doc_content = ''return policy here'', doc_source = ''c.md'', doc_relevance = 2\<rparr>,
      \<lparr>doc_content = ''Our RETURN desk'', doc_source = ''a.txt'', doc_relevance = 1\<rparr>,
      \<lparr>doc_content = ''policy'', doc_source = ''d.json'', doc_relevance = 1\<rparr>]"
  "filter has_doc_extension
     (scanned (is_candidate library_store ''Return Policy'') 3
        [''a.txt'', ''b.png'', ''c.md'', ''d.json'']) = [''a.txt'', ''c.md'', ''d.json'']"
  by code_simp+

theorem retrieval_ranking_witness:
  "retrieve_relevant_documents library_world full_config [] ''return policy'' 2 =
     (Inr [\<lparr>doc_content = ''return policy here'', doc_source = ''c.md'', doc_relevance = 2\<rparr>,
           \<lparr>doc_content = ''Our RETURN desk'', doc_source = ''a.txt'', doc_relevance = 1\<rparr>],
      [ListObjects (Some ''kb-bucket'') ''knowledge_base/'',
       GetObject (Some ''kb-bucket'') ''a.txt'',
       GetObject (Some ''kb-bucket'') ''c.md''])
   \<and> retrieve_relevant_documents library_world full_config [] ''Return Policy'' 3 =
     (Inr [\<lparr>doc_content = ''return policy here'', doc_source = ''c.md'', doc_relevance = 2\<rparr>,
           \<lparr>doc_content = ''Our RETURN desk'', doc_source = ''a.txt'', doc_relevance = 1\<rparr>,
           \<lparr>doc_content = ''policy'', doc_source = ''d.json'', doc_relevance = 1\<rparr>],
      [ListObjects (Some ''kb-bucket'') ''knowledge_base/'',
       GetObject (Some ''kb-bucket'') ''a.txt'',
       GetObject (Some ''kb-bucket'') ''c.md'',
       GetObject (Some ''kb-bucket'') ''d.json''])"
proof -
  let ?keys = "[''a.txt'', ''b.png'', ''c.md'', ''d.json'']"
  have h1: "\<forall>l. s3_list_objects_v2 library_world l (s3_bucket full_config) (s3_prefix full_config)
              = Inr (Some ?keys)"
    by (simp add: library_world_def)
  have ext: "\<not> has_doc_extension ''b.png''" by code_simp
  have h2: "\<forall>l k. k \<in> set ?keys \<and> has_doc_extension k \<longrightarrow>
              s3_get_object library_world l (s3_bucket full_config) k = Inr (library_store k)"
    using ext by (auto simp: library_world_def library_store_def)
  have c: "s3_bucket full_config = Some ''kb-bucket''" "s3_prefix full_config = ''knowledge_base/''"
    by (simp_all add: full_config_def)
  show ?thesis
    using retrieval_ranking [OF h1 h2, of "[]" "''return policy''" 2, THEN conjunct1]
          retrieval_ranking [OF h1 h2, of "[]" "''Return Policy''" 3, THEN conjunct1]
    by (simp add: library_examples c)
qed

section \<open>Ticket operations: cancelling\<close>

lemma map_of_py_setitem:
  "map_of (py_setitem kvs k v) a = (if a = k then Some v else map_of kvs a)"
  by (induction kvs) auto

lemma set_clauses_cancel:
  "set_clauses ''SET #status = :status, updated_at = :updated'' =
     Some [(''#status'', '':status''), (''updated_at'', '':updated'')]"
  "set_clauses ''SET #status = :status, updated_at = :updated, cancellation_reason = :reason'' =
     Some [(''#status'', '':status''), (''updated_at'', '':updated''),
           (''cancellation_reason'', '':reason'')]"
  by code_simp+

lemma cancel_request_fields:
  "Key (cancel_request ts ticket_id reason) = JObj [(''ticket_id'', ticket_id)]"
  "UpdateExpression (cancel_request ts ticket_id reason) =
     (if truthy reason
      then ''SET #status = :status, updated_at = :updated, cancellation_reason = :reason''
      else ''SET #status = :status, updated_at = :updated'')"
  "ExpressionAttributeNames (cancel_request ts ticket_id reason) = [(''#status'', ''status'')]"
  "ExpressionAttributeValues (cancel_request ts ticket_id reason) =
     (if truthy reason
      then [('':status'', JStr ''cancelled''), ('':updated'', JStr ts), ('':reason'', reason)]
      else [('':status'', JStr ''cancelled''), ('':updated'', JStr ts)])"
  "ReturnValues (cancel_request ts ticket_id reason) = ''UPDATED_NEW''"
  by (simp_all add: cancel_request_def Let_def)

lemma store_update_cancel:
  "\<exists>item'. store_update stored (cancel_request ts ticket_id reason) = Some item'
     \<and> map_of item' ''status'' = Some (JStr ''cancelled'')
     \<and> map_of item' ''updated_at'' = Some (JStr ts)
     \<and> (truthy reason \<longrightarrow> map_of item' ''cancellation_reason'' = Some reason)
     \<and> (\<forall>a. a \<noteq> ''status'' \<and> a \<noteq> ''updated_at''
            \<and> (a = ''cancellation_reason'' \<longrightarrow> \<not> truthy reason)
          \<longrightarrow> map_of item' a = map_of (stored_base stored ticket_id) a)"
proof -
  have base: "(case stored of Some item \<Rightarrow> item
               | None \<Rightarrow> (case JObj [(''ticket_id'', ticket_id)] of JObj kvs \<Rightarrow> kvs | _ \<Rightarrow> []))
          = stored_base stored ticket_id"
    by (simp add: stored_base_def split: option.splits)
  show ?thesis
  proof (cases "truthy reason")
    case True
    then show ?thesis
      unfolding store_update_def cancel_request_fields base
      by (simp add: set_clauses_cancel map_of_py_setitem)
  next
    case False
    then show ?thesis
      unfolding store_update_def cancel_request_fields base
      by (simp add: set_clauses_cancel map_of_py_setitem)
  qed
qed

text \<open>
  What holds of \<open>cancel_ticket\<close> whatever the store does: it makes exactly one store
  call, the update of the record with the given \<open>ticket_id\<close>, without reading the
  record first and without condition; it returns true when that call succeeds and false
  when it raises a ClientError. Applied to any stored record, or to none, the request
  sets \<open>status\<close> to \<open>cancelled\<close> and \<open>updated_at\<close> to the current time, sets
  \<open>cancellation_reason\<close> when a (non-empty) reason is given, and leaves every other
  attribute as it was; \<open>cancellation_reason\<close> too when no reason is given.
\<close>

lemma cancel_ticket_frame:
  "snd (cancel_ticket w log ticket_id reason) =
     log @ [UpdateItem (cancel_request (utcnow_isoformat w log) ticket_id reason)]
   \<and> (table_update_item w log (cancel_request (utcnow_isoformat w log) ticket_id reason) = None \<longrightarrow>
        fst (cancel_ticket w log ticket_id reason) = Inr True)
   \<and> (\<forall>m. table_update_item w log (cancel_request (utcnow_isoformat w log) ticket_id reason)
                = Some (ClientError m) \<longrightarrow>
        fst (cancel_ticket w log ticket_id reason) = Inr False)
   \<and> Key (cancel_request (utcnow_isoformat w log) ticket_id reason) = JObj [(''ticket_id'', ticket_id)]
   \<and> (\<forall>stored. \<exists>item'.
          store_update stored (cancel_request (utcnow_isoformat w log) ticket_id reason) = Some item'
        \<and> map_of item' ''status'' = Some (JStr ''cancelled'')
        \<and> map_of item' ''updated_at'' = Some (JStr (utcnow_isoformat w log))
        \<and> (truthy reason \<longrightarrow> map_of item' ''cancellation_reason'' = Some reason)
        \<and> (\<forall>a. a \<noteq> ''status'' \<and> a \<noteq> ''updated_at''
               \<and> (a = ''cancellation_reason'' \<longrightarrow> \<not> truthy reason) \<longrightarrow>
             map_of item' a = map_of (stored_base stored ticket_id) a))"
proof -
  let ?req = "cancel_request (utcnow_isoformat w log) ticket_id reason"
  have ret: "fst (cancel_ticket w log ticket_id reason) =
               (case table_update_item w log ?req of
                  None \<Rightarrow> Inr True
                | Some (ClientError m) \<Rightarrow> Inr False
                | Some e \<Rightarrow> Inl e)"
    by (simp add: cancel_ticket_def Let_def split: option.splits exn.splits)
  have p2: "table_update_item w log ?req = None \<longrightarrow>
              fst (cancel_ticket w log ticket_id reason) = Inr True"
    unfolding ret by simp
  have p3: "\<forall>m. table_update_item w log ?req = Some (ClientError m) \<longrightarrow>
              fst (cancel_ticket w log ticket_id reason) = Inr False"
    unfolding ret by simp
  show ?thesis
    using p2 p3 cancel_ticket_log [of w log ticket_id reason]
          store_update_cancel [of _ "utcnow_isoformat w log" ticket_id reason]
          cancel_request_fields(1) [of "utcnow_isoformat w log" ticket_id reason]
    by (intro conjI allI) blast+
qed

lemma cancel_examples:
  "store_update (Some open_ticket) (cancel_request ''2024-05-01T12:00:00'' (JStr ''T-1'') (JStr ''duplicate'')) =
     Some [(''ticket_id'', JStr ''T-1''),
           (''subject'', JStr ''Printer''),
           (''status'', JStr ''cancelled''),
           (''priority'', JStr ''high''),
           (''created_at'', JStr ''2024-04-30T09:00:00''),
           (''updated_at'', JStr ''2024-05-01T12:00:00''),
           (''cancellation_reason'', JStr ''duplicate'')]"
  "store_update None (cancel_request ''2024-05-01T12:00:00'' (JStr ''T-404'') JNull) =
     Some [(''ticket_id'', JStr ''T-404''),
           (''status'', JStr ''cancelled''),
           (''updated_at'', JStr ''2024-05-01T12:00:00'')]"
  by code_simp+

lemma cancel_ticket_frame_examples:
  "cancel_ticket quiet_world [] (JStr ''T-1'') (JStr ''duplicate'') =
     (Inr True, [UpdateItem (cancel_request ''2024-05-01T12:00:00'' (JStr ''T-1'') (JStr ''duplicate''))])
   \<and> cancel_ticket quiet_world [] (JStr ''T-404'') JNull =
     (Inr True, [UpdateItem (cancel_request ''2024-05-01T12:00:00'' (JStr ''T-404'') JNull)])
   \<and> fst (cancel_ticket throttled_world [] (JStr ''T-1'') JNull) = Inr False"
proof -
  have q: "utcnow_isoformat quiet_world l = ''2024-05-01T12:00:00''"
          "table_update_item quiet_world l r = None" for l r
    by (simp_all add: quiet_world_def)
  have t: "table_update_item throttled_world l r = Some (ClientError ''ProvisionedThroughputExceededException'')"
    for l r by (simp add: throttled_world_def)
  have a: "cancel_ticket quiet_world [] tid rsn =
     (Inr True, [UpdateItem (cancel_request ''2024-05-01T12:00:00'' tid rsn)])" for tid rsn
    using cancel_ticket_frame [of quiet_world "[]" tid rsn]
    by (simp add: q prod_eq_iff)
  have b: "fst (cancel_ticket throttled_world [] (JStr ''T-1'') JNull) = Inr False"
    using cancel_ticket_frame [of throttled_world "[]" "JStr ''T-1''" JNull]
    by (simp add: t)
  show ?thesis
    using a b by simp
qed

text \<open>
  C8. The claim says that \<open>cancel_ticket\<close> returns false exactly when the store update
  fails and true otherwise, and so does the docstring of the function (True if
  successful, False otherwise). The handler is \<open>except ClientError\<close>: when the update
  fails with an exception of another class (here the client cannot reach the endpoint)
  the function returns neither false nor true, the exception leaves it. Evaluated on
  such a store:
\<close>

theorem cancel_ticket_store_failure_raises:
  "table_update_item offline_world []
       (cancel_request (utcnow_isoformat offline_world []) (JStr ''T-1'') JNull)
     = Some (OtherError ''Could not connect to the endpoint URL'')
   \<and> cancel_ticket offline_world [] (JStr ''T-1'') JNull
     = (Inl (OtherError ''Could not connect to the endpoint URL''),
        [UpdateItem (cancel_request ''2024-05-01T12:00:00'' (JStr ''T-1'') JNull)])
   \<and> fst (cancel_ticket offline_world [] (JStr ''T-1'') JNull) \<noteq> Inr False"
  by (simp add: cancel_ticket_def offline_world_def quiet_world_def)

section \<open>Ticketing through the router: creating a ticket\<close>

lemma create_ticket_intent_raises:
  assumes "determine_intent w cfg log user_input = (Inr (JObj kvs), log1)"
      and "map_of kvs ''action'' = Some (JStr ''create_ticket'')"
  shows "ticketing_process_request w cfg log user_input =
           (Inl (TypeError ''create_ticket() missing required positional arguments:  user_id emergency''), log1)"
  using assms
  by (simp add: ticketing_process_request_def bind_exn_def py_getitem_def create_ticket_def
        missing_required_def)

text \<open>
  C1. The claim says that the router always returns a value and that dispatching a
  \<open>create_ticket\<close> intent yields a structured result. \<open>process_request\<close> of the
  ticketing handler calls \<open>create_ticket\<close> with \<open>subject\<close>, \<open>description\<close>,
  \<open>priority\<close> and \<open>assigned_to\<close> only, while \<open>create_ticket\<close> also requires
  \<open>user_id\<close> and \<open>emergency\<close>: the call raises TypeError, nothing catches it, and the
  router raises. Evaluated on a request the supervisor routes to ticketing and the model
  reads as a ticket creation:
\<close>

theorem create_ticket_dispatch_raises:
  "process_request ticket_world full_config [] ''please open a ticket for my broken printer'' None =
     (Inl (TypeError ''create_ticket() missing required positional arguments:  user_id emergency''),
      [InvokeAgent \<lparr>inputText = ''please open a ticket for my broken printer'',
                    agentId = ''AGENT1'', agentAliasId = ''ALIAS1'', sessionId = None\<rparr>,
       InvokeModel ''anthropic.claude-3-sonnet-20240229-v1:0''
         (intent_prompt ''please open a ticket for my broken printer'')])"
  by code_simp

section \<open>Emergency escalation through the router\<close>

lemma evaluate_emergency_escalates_once:
  assumes "sns_topic_arn cfg = Some arn" "arn \<noteq> []"
      and "bedrock_invoke_model w log (model_id cfg) (emergency_prompt message) = Inr body"
      and "model_text body ''{}'' = Inr (JStr c)"
      and "0 \<le> py_find c ''{''" "py_find c ''{'' < py_rfind c ''}'' + 1"
      and "json_loads w (py_slice c (py_find c ''{'') (py_rfind c ''}'' + 1)) = Inr (JObj kvs)"
      and "map_of kvs ''is_emergency'' = Some is_em" "truthy is_em"
      and "map_of kvs ''severity'' = Some (JStr sev)" "sev = ''high'' \<or> sev = ''critical''"
  shows "\<exists>msg. evaluate_emergency w cfg log message =
           (JObj kvs,
            log @ [InvokeModel (model_id cfg) (emergency_prompt message),
                   SnsPublish arn (''EMERGENCY ALERT - '' @ sev @ '' severity'') msg])"
  using assms
  by (auto simp add: evaluate_emergency_def evaluate_emergency_try_def escalate_emergency_def
        Let_def py_format_def)

text \<open>
  C2. The claim says that publish is invoked exactly once per request. One evaluation
  publishes once (the lemma above), and so does the handler alone (the lemma below), but
  the pre-check of the router evaluates the input and, when it is an emergency, calls
  the handler, which evaluates it again: with a model that reports a critical emergency
  the request publishes twice.
\<close>

theorem precheck_escalates_twice:
  "process_request alarm_world full_config [] ''there is a fire'' None =
     (Inr (JObj [(''status'', JStr ''emergency_escalated''),
                 (''message'', JStr ''This situation has been identified as a serious emergency and has been escalated to the appropriate team. Please follow these immediate actions:''),
                 (''actions'', JList []),
                 (''severity'', JStr ''critical'')]),
      [InvokeModel ''anthropic.claude-3-sonnet-20240229-v1:0'' (emergency_prompt ''there is a fire''),
       SnsPublish ''arn:aws:sns:us-east-1:1:alerts'' ''EMERGENCY ALERT - critical severity'' ''<json>'',
       InvokeModel ''anthropic.claude-3-sonnet-20240229-v1:0'' (emergency_prompt ''there is a fire''),
       SnsPublish ''arn:aws:sns:us-east-1:1:alerts'' ''EMERGENCY ALERT - critical severity'' ''<json>''])
   \<and> length (filter is_publish
         (snd (process_request alarm_world full_config [] ''there is a fire'' None))) = 2"
  by code_simp

lemma handler_escalates_once_example:
  "snd (handle_emergency_request alarm_world full_config [] ''there is a fire'') =
     [InvokeModel ''anthropic.claude-3-sonnet-20240229-v1:0'' (emergency_prompt ''there is a fire''),
      SnsPublish ''arn:aws:sns:us-east-1:1:alerts'' ''EMERGENCY ALERT - critical severity'' ''<json>'']"
  by code_simp

end
